theory Spec2Isabelle
  imports Complex_Main "HOL-Library.Word"
begin

section \<open>Data model of SceneManager.cpp\<close>

text \<open>
  C++ \<open>float\<close> values are carried as real numbers: the code under study only stores the
  literals it is given and hands them on; the one place where arithmetic happens is
  inside GLM, which is a parameter of the model (see \<open>glm\<close> below).
  A \<open>glm::mat4\<close> is four columns of four components (GLM is column-major).
\<close>

type_synonym vec2 = "real \<times> real"
type_synonym vec3 = "real \<times> real \<times> real"
type_synonym vec4 = "real \<times> real \<times> real \<times> real"
type_synonym mat4 = "vec4 \<times> vec4 \<times> vec4 \<times> vec4"
type_synonym GLuint = "32 word"

text \<open>
  The functions of \<open>glm/gtx/transform.hpp\<close> that \<open>SetTransformations\<close> calls. GLM is an
  external library computing in floating point, so the model takes its operations as a
  parameter: what is proved holds for every implementation of them.
\<close>

record glm =
  glm_scale :: "vec3 \<Rightarrow> mat4"
  glm_rotate :: "real \<Rightarrow> vec3 \<Rightarrow> mat4"
  glm_translate :: "vec3 \<Rightarrow> mat4"
  glm_radians :: "real \<Rightarrow> real"
  glm_mul :: "mat4 \<Rightarrow> mat4 \<Rightarrow> mat4"

text \<open>\<open>TEXTURE_INFO\<close>: one entry of the texture table \<open>m_textureIDs\<close>.\<close>

record TEXTURE_INFO =
  ID :: GLuint
  tag :: string

text \<open>\<open>OBJECT_MATERIAL\<close>; its \<open>tag\<close> member is the field \<open>material_tag\<close> here
  (a record field name cannot be shared with \<open>TEXTURE_INFO\<close>).\<close>

record OBJECT_MATERIAL =
  ambientColor :: vec3
  ambientStrength :: real
  diffuseColor :: vec3
  specularColor :: vec3
  shininess :: real
  material_tag :: string

text \<open>The result of \<open>stbi_load\<close> when it returns a buffer (the pixels are not looked at).\<close>

record image =
  width :: int
  height :: int
  colorChannels :: int

datatype mesh = PlaneMesh | TorusMesh | BoxMesh | TaperedCylinderMesh | PrismMesh

text \<open>
  Every call the code makes on its external collaborators (the shader manager, OpenGL,
  stb_image, the standard output, the mesh library), with its arguments. A
  \<open>glGenTextures\<close> event carries the name OpenGL stored through the pointer it was given.
\<close>

datatype call =
    setMat4Value string mat4
  | setIntValue string int
  | setVec4Value string vec4
  | setSampler2DValue string int
  | setVec2Value string vec2
  | setVec3Value string vec3
  | setFloatValue string real
  | stbi_set_flip_vertically_on_load bool
  | stbi_load string
  | stbi_image_free
  | cout_loaded string int int int
  | cout_not_implemented int
  | cout_could_not_load string
  | glGenTextures GLuint
  | glBindTexture GLuint
  | glTexParameteri string string
  | glTexImage2D string int int string
  | glGenerateMipmap
  | Draw mesh

text \<open>\<open>m_pShaderManager\<close> is either \<open>NULL\<close> or points to the shader manager.\<close>

datatype pointer = NULL | NonNull

text \<open>
  The members of \<open>SceneManager\<close> that the code reads and writes, and \<open>calls\<close>, the log
  of the external calls made so far, oldest first. \<open>m_textureIDs\<close> is the fixed-size array
  declared in SceneManager.h: a list whose length is the array's size and never changes.
  The header is not among the sources; the comments of the code speak of sixteen slots,
  and the model is written for a table of any length.
\<close>

record SceneManager =
  m_pShaderManager :: pointer
  m_textureIDs :: "TEXTURE_INFO list"
  m_loadedTextures :: int
  m_objectMaterials :: "OBJECT_MATERIAL list"
  calls :: "call list"

text \<open>
  What C++ leaves undefined is a result of its own: an array access outside
  \<open>m_textureIDs\<close> (with the index used) and a member call through a null pointer.
\<close>

datatype undefined_behaviour =
    OutOfBoundsWrite int
  | OutOfBoundsRead int
  | NullDereference

definition emit :: "call list \<Rightarrow> SceneManager \<Rightarrow> SceneManager" where
  "emit cs s = s\<lparr>calls := calls s @ cs\<rparr>"

definition in_bounds :: "SceneManager \<Rightarrow> int \<Rightarrow> bool" where
  "in_bounds s i = (0 \<le> i \<and> i < int (length (m_textureIDs s)))"

text \<open>The names of the shader parameters (the globals of the anonymous namespace).\<close>

definition g_ModelName :: string where "g_ModelName = ''model''"
definition g_ColorValueName :: string where "g_ColorValueName = ''objectColor''"
definition g_TextureValueName :: string where "g_TextureValueName = ''objectTexture''"
definition g_UseTextureName :: string where "g_UseTextureName = ''bUseTexture''"

section \<open>The texture table\<close>

text \<open>
  \<open>CreateGLTexture\<close>. The arguments \<open>img\<close> and \<open>textureID\<close> are what the two external
  calls answer: the buffer \<open>stbi_load\<close> returns (\<open>None\<close> for a null pointer) and the name
  \<open>glGenTextures\<close> writes. The \<open>if\<close>, \<open>else if\<close>, \<open>else\<close> on the channel count either
  uploads the image or returns false; that early return comes after the texture was
  generated and bound and before anything is freed.
\<close>

definition CreateGLTexture ::
  "image option \<Rightarrow> GLuint \<Rightarrow> string \<Rightarrow> string \<Rightarrow> SceneManager
     \<Rightarrow> undefined_behaviour + (bool \<times> SceneManager)" where
  "CreateGLTexture img textureID filename tg s =
    (let s1 = emit [stbi_set_flip_vertically_on_load True, stbi_load filename] s in
     case img of
       Some im \<Rightarrow>
         (let s2 = emit
               [cout_loaded filename (width im) (height im) (colorChannels im),
                glGenTextures textureID,
                glBindTexture textureID,
                glTexParameteri ''GL_TEXTURE_WRAP_S'' ''GL_REPEAT'',
                glTexParameteri ''GL_TEXTURE_WRAP_T'' ''GL_REPEAT'',
                glTexParameteri ''GL_TEXTURE_MIN_FILTER'' ''GL_LINEAR'',
                glTexParameteri ''GL_TEXTURE_MAG_FILTER'' ''GL_LINEAR''] s1 in
          case (if colorChannels im = 3
                then Some (glTexImage2D ''GL_RGB8'' (width im) (height im) ''GL_RGB'')
                else if colorChannels im = 4
                then Some (glTexImage2D ''GL_RGBA8'' (width im) (height im) ''GL_RGBA'')
                else None) of
            None \<Rightarrow> Inr (False, emit [cout_not_implemented (colorChannels im)] s2)
          | Some upload \<Rightarrow>
            (let s3 = emit [upload, glGenerateMipmap, stbi_image_free, glBindTexture 0] s2;
                 i = m_loadedTextures s3 in
             if \<not> in_bounds s3 i then Inl (OutOfBoundsWrite i)
             else
               (let t1 = (m_textureIDs s3)[nat i := (m_textureIDs s3 ! nat i)\<lparr>ID := textureID\<rparr>];
                    t2 = t1[nat i := (t1 ! nat i)\<lparr>tag := tg\<rparr>]
                in Inr (True, s3\<lparr>m_textureIDs := t2, m_loadedTextures := i + 1\<rparr>))))
     | None \<Rightarrow> Inr (False, emit [cout_could_not_load filename] s1))"

text \<open>
  \<open>DestroyGLTextures\<close>: the \<open>for\<close> loop from \<open>i\<close> on. \<open>gen i\<close> is the name OpenGL writes
  in iteration \<open>i\<close>; the call in the loop body is \<open>glGenTextures\<close>, on the address of the
  entry's \<open>ID\<close>.
\<close>

function DestroyGLTextures_for ::
  "(int \<Rightarrow> GLuint) \<Rightarrow> int \<Rightarrow> SceneManager \<Rightarrow> undefined_behaviour + SceneManager" where
  "DestroyGLTextures_for gen i s =
    (if i < m_loadedTextures s then
       (if \<not> in_bounds s i then Inl (OutOfBoundsWrite i)
        else DestroyGLTextures_for gen (i + 1)
               (emit [glGenTextures (gen i)]
                  (s\<lparr>m_textureIDs :=
                       (m_textureIDs s)[nat i := (m_textureIDs s ! nat i)\<lparr>ID := gen i\<rparr>]\<rparr>)))
     else Inr s)"
  by pat_completeness auto
termination
  by (relation "measure (\<lambda>(gen, i, s). nat (m_loadedTextures s - i))")
     (auto simp: emit_def)

declare DestroyGLTextures_for.simps [simp del]

definition DestroyGLTextures ::
  "(int \<Rightarrow> GLuint) \<Rightarrow> SceneManager \<Rightarrow> undefined_behaviour + SceneManager" where
  "DestroyGLTextures gen s = DestroyGLTextures_for gen 0 s"

text \<open>
  \<open>FindTextureSlot\<close>: the \<open>while\<close> loop over the locals \<open>(textureSlot, index, bFound)\<close>.
\<close>

function FindTextureSlot_while ::
  "SceneManager \<Rightarrow> string \<Rightarrow> int \<times> int \<times> bool \<Rightarrow> undefined_behaviour + (int \<times> int \<times> bool)" where
  "FindTextureSlot_while s tg (textureSlot, index, bFound) =
    (if index < m_loadedTextures s \<and> bFound = False then
       (if \<not> in_bounds s index then Inl (OutOfBoundsRead index)
        else if tag (m_textureIDs s ! nat index) = tg
             then FindTextureSlot_while s tg (index, index, True)
             else FindTextureSlot_while s tg (textureSlot, index + 1, bFound))
     else Inr (textureSlot, index, bFound))"
  by pat_completeness auto
termination
  by (relation "measure (\<lambda>(s, tg, (textureSlot, index, bFound)).
        nat (m_loadedTextures s - index) + (if bFound then 0 else 1))")
     auto

declare FindTextureSlot_while.simps [simp del]

definition FindTextureSlot :: "string \<Rightarrow> SceneManager \<Rightarrow> undefined_behaviour + int" where
  "FindTextureSlot tg s =
    (case FindTextureSlot_while s tg (- 1, 0, False) of
       Inl ub \<Rightarrow> Inl ub
     | Inr (textureSlot, index, bFound) \<Rightarrow> Inr textureSlot)"

section \<open>The material list\<close>

text \<open>
  \<open>FindMaterial\<close>: the \<open>while\<close> loop over \<open>(index, bFound, material)\<close>; \<open>index\<close> starts at
  0 and only counts up, so it is a natural number. The five fields are copied, the tag
  is not. The function returns \<open>true\<close> whenever the list is not empty.
\<close>

function FindMaterial_while ::
  "OBJECT_MATERIAL list \<Rightarrow> string \<Rightarrow> nat \<times> bool \<times> OBJECT_MATERIAL
     \<Rightarrow> nat \<times> bool \<times> OBJECT_MATERIAL" where
  "FindMaterial_while ms tg (index, bFound, material) =
    (if index < length ms \<and> bFound = False then
       (if material_tag (ms ! index) = tg
        then FindMaterial_while ms tg
               (index, True,
                material\<lparr>ambientColor := ambientColor (ms ! index),
                         ambientStrength := ambientStrength (ms ! index),
                         diffuseColor := diffuseColor (ms ! index),
                         specularColor := specularColor (ms ! index),
                         shininess := shininess (ms ! index)\<rparr>)
        else FindMaterial_while ms tg (index + 1, bFound, material))
     else (index, bFound, material))"
  by pat_completeness auto
termination
  by (relation "measure (\<lambda>(ms, tg, (index, bFound, material)).
        (length ms - index) + (if bFound then 0 else 1))")
     auto

declare FindMaterial_while.simps [simp del]

definition FindMaterial ::
  "string \<Rightarrow> OBJECT_MATERIAL \<Rightarrow> SceneManager \<Rightarrow> bool \<times> OBJECT_MATERIAL" where
  "FindMaterial tg material s =
    (if length (m_objectMaterials s) = 0 then (False, material)
     else
       (case FindMaterial_while (m_objectMaterials s) tg (0, False, material) of
          (index, bFound, material') \<Rightarrow> (True, material')))"

section \<open>The shader parameter binder\<close>

definition SetTransformations ::
  "glm \<Rightarrow> vec3 \<Rightarrow> real \<Rightarrow> real \<Rightarrow> real \<Rightarrow> vec3 \<Rightarrow> SceneManager
     \<Rightarrow> undefined_behaviour + SceneManager" where
  "SetTransformations g scaleXYZ XrotationDegrees YrotationDegrees ZrotationDegrees positionXYZ s =
    (let scale = glm_scale g scaleXYZ;
         rotationX = glm_rotate g (glm_radians g XrotationDegrees) (1, 0, 0);
         rotationY = glm_rotate g (glm_radians g YrotationDegrees) (0, 1, 0);
         rotationZ = glm_rotate g (glm_radians g ZrotationDegrees) (0, 0, 1);
         translation = glm_translate g positionXYZ;
         modelView =
           glm_mul g (glm_mul g (glm_mul g (glm_mul g translation rotationX) rotationY) rotationZ)
             scale
     in if m_pShaderManager s \<noteq> NULL
        then Inr (emit [setMat4Value g_ModelName modelView] s)
        else Inr s)"

definition SetShaderColor ::
  "real \<Rightarrow> real \<Rightarrow> real \<Rightarrow> real \<Rightarrow> SceneManager \<Rightarrow> undefined_behaviour + SceneManager" where
  "SetShaderColor redColorValue greenColorValue blueColorValue alphaValue s =
    (let currentColor = (redColorValue, greenColorValue, blueColorValue, alphaValue)
     in if m_pShaderManager s \<noteq> NULL
        then Inr (emit [setIntValue g_UseTextureName 0,
                        setVec4Value g_ColorValueName currentColor] s)
        else Inr s)"

definition SetShaderTexture :: "string \<Rightarrow> SceneManager \<Rightarrow> undefined_behaviour + SceneManager" where
  "SetShaderTexture textureTag s =
    (if m_pShaderManager s \<noteq> NULL then
       (let s1 = emit [setIntValue g_UseTextureName 1] s in
        case FindTextureSlot textureTag s1 of
          Inl ub \<Rightarrow> Inl ub
        | Inr textureID \<Rightarrow> Inr (emit [setSampler2DValue g_TextureValueName textureID] s1))
     else Inr s)"

definition SetTextureUVScale :: "real \<Rightarrow> real \<Rightarrow> SceneManager \<Rightarrow> undefined_behaviour + SceneManager" where
  "SetTextureUVScale u v s =
    (if m_pShaderManager s \<noteq> NULL
     then Inr (emit [setVec2Value ''UVscale'' (u, v)] s)
     else Inr s)"

text \<open>
  \<open>SetShaderMaterial\<close>. \<open>uninit\<close> is the content of the local \<open>material\<close> when it is
  declared: nothing initialises it before \<open>FindMaterial\<close> is called. The five calls go
  through \<open>m_pShaderManager\<close> with no test of the pointer.
\<close>

definition SetShaderMaterial ::
  "OBJECT_MATERIAL \<Rightarrow> string \<Rightarrow> SceneManager \<Rightarrow> undefined_behaviour + SceneManager" where
  "SetShaderMaterial uninit materialTag s =
    (if length (m_objectMaterials s) > 0 then
       (case FindMaterial materialTag uninit s of
          (bReturn, material) \<Rightarrow>
            if bReturn = True then
              (if m_pShaderManager s = NULL then Inl NullDereference
               else Inr (emit
                 [setVec3Value ''material.ambientColor'' (ambientColor material),
                  setFloatValue ''material.ambientStrength'' (ambientStrength material),
                  setVec3Value ''material.diffuseColor'' (diffuseColor material),
                  setVec3Value ''material.specularColor'' (specularColor material),
                  setFloatValue ''material.shininess'' (shininess material)] s))
            else Inr s)
     else Inr s)"

section \<open>The scene\<close>

text \<open>Statements executed one after the other; undefined behaviour ends the run.\<close>

fun sequence :: "('s \<Rightarrow> 'e + 's) list \<Rightarrow> 's \<Rightarrow> 'e + 's" where
  "sequence [] s = Inr s"
| "sequence (f # fs) s = (case f s of Inl e \<Rightarrow> Inl e | Inr s' \<Rightarrow> sequence fs s')"

text \<open>The draw methods of \<open>m_basicMeshes\<close> (the constructor allocates the object).\<close>

definition DrawPlaneMesh :: "SceneManager \<Rightarrow> undefined_behaviour + SceneManager" where
  "DrawPlaneMesh s = Inr (emit [Draw PlaneMesh] s)"

definition DrawTorusMesh :: "SceneManager \<Rightarrow> undefined_behaviour + SceneManager" where
  "DrawTorusMesh s = Inr (emit [Draw TorusMesh] s)"

definition DrawBoxMesh :: "SceneManager \<Rightarrow> undefined_behaviour + SceneManager" where
  "DrawBoxMesh s = Inr (emit [Draw BoxMesh] s)"

definition DrawPrismMesh :: "SceneManager \<Rightarrow> undefined_behaviour + SceneManager" where
  "DrawPrismMesh s = Inr (emit [Draw PrismMesh] s)"

text \<open>The materials of \<open>DefineObjectMaterials\<close>, in the order they are pushed.\<close>

definition box1Material :: OBJECT_MATERIAL where
  "box1Material = \<lparr>ambientColor = (0.1, 0.1, 0.1), ambientStrength = 0.1,
     diffuseColor = (0.6, 0.5, 0.4), specularColor = (0.2, 0.3, 0.4), shininess = 0.5,
     material_tag = ''box1''\<rparr>"

definition box2Material :: OBJECT_MATERIAL where
  "box2Material = \<lparr>ambientColor = (0.1, 0.1, 0.1), ambientStrength = 0.1,
     diffuseColor = (0.6, 0.5, 0.4), specularColor = (0.2, 0.3, 0.4), shininess = 0.5,
     material_tag = ''box2''\<rparr>"

definition box3Material :: OBJECT_MATERIAL where
  "box3Material = \<lparr>ambientColor = (0.1, 0.1, 0.1), ambientStrength = 0.1,
     diffuseColor = (0.6, 0.5, 0.4), specularColor = (0.2, 0.3, 0.4), shininess = 0.5,
     material_tag = ''box3''\<rparr>"

definition box4Material :: OBJECT_MATERIAL where
  "box4Material = \<lparr>ambientColor = (0.1, 0.1, 0.1), ambientStrength = 0.1,
     diffuseColor = (0.6, 0.5, 0.4), specularColor = (0.2, 0.3, 0.4), shininess = 0.5,
     material_tag = ''box4''\<rparr>"

definition prismMaterial :: OBJECT_MATERIAL where
  "prismMaterial = \<lparr>ambientColor = (0.1, 0.1, 0.1), ambientStrength = 0.1,
     diffuseColor = (0.8, 0.7, 0.5), specularColor = (0.2, 0.3, 0.4), shininess = 0.5,
     material_tag = ''prism''\<rparr>"

definition torusMaterial :: OBJECT_MATERIAL where
  "torusMaterial = \<lparr>ambientColor = (0.1, 0.1, 0.1), ambientStrength = 0.1,
     diffuseColor = (0.3, 0.7, 0.5), specularColor = (0.2, 0.3, 0.4), shininess = 0.7,
     material_tag = ''torus''\<rparr>"

definition topPlaneMaterial :: OBJECT_MATERIAL where
  "topPlaneMaterial = \<lparr>ambientColor = (0.1, 0.1, 0.1), ambientStrength = 0.1,
     diffuseColor = (0.9, 0.9, 0.9), specularColor = (0.5, 0.5, 0.5), shininess = 0.8,
     material_tag = ''topPlane''\<rparr>"

definition bottomPlaneMaterial :: OBJECT_MATERIAL where
  "bottomPlaneMaterial = \<lparr>ambientColor = (0.1, 0.1, 0.1), ambientStrength = 0.1,
     diffuseColor = (0.3, 0.3, 0.3), specularColor = (0.5, 0.5, 0.5), shininess = 0.3,
     material_tag = ''bottomPlane''\<rparr>"

definition DefineObjectMaterials :: "SceneManager \<Rightarrow> SceneManager" where
  "DefineObjectMaterials s =
    s\<lparr>m_objectMaterials := m_objectMaterials s @
        [box1Material, box2Material, box3Material, box4Material, prismMaterial,
         torusMaterial, topPlaneMaterial, bottomPlaneMaterial]\<rparr>"

text \<open>
  \<open>RenderScene\<close>, statement by statement, with the values the locals hold at each call.
  \<open>uninit n\<close> is the uninitialised local of the \<open>n\<close>-th call of \<open>SetShaderMaterial\<close>.
\<close>

definition RenderScene ::
  "glm \<Rightarrow> (nat \<Rightarrow> OBJECT_MATERIAL) \<Rightarrow> SceneManager \<Rightarrow> undefined_behaviour + SceneManager" where
  "RenderScene g uninit =
    sequence
     [SetTransformations g (20, 1, 10) 0 0 0 (0, 0, 0),
      SetShaderColor 1 1 1 1,
      SetShaderTexture ''ground'',
      SetShaderMaterial (uninit 0) ''bottomPlane'',
      DrawPlaneMesh,

      SetTransformations g (20, 1, 10) 90 0 0 (0, 9, - 10),
      SetShaderColor 1 1 1 1,
      SetShaderTexture ''sky'',
      SetShaderMaterial (uninit 1) ''topPlane'',
      DrawPlaneMesh,

      SetTransformations g (10, 6, 2) 90 0 0 (0, 0, 2),
      SetShaderColor 0.243 0.651 0.286 1,
      SetShaderTexture ''bush'',
      SetShaderMaterial (uninit 2) ''torus'',
      DrawTorusMesh,

      SetTransformations g (7, 4, 3) 0 0 0 (0, 1, 2.5),
      SetShaderColor 0.871 0.804 0.675 1,
      SetShaderTexture ''stone'',
      SetShaderMaterial (uninit 3) ''box1'',
      DrawBoxMesh,

      SetTransformations g (5, 2.5, 3) 0 0 0 (0, 3.5, 2.5),
      SetShaderColor 0.871 0.804 0.675 1,
      SetShaderTexture ''stone'',
      SetShaderMaterial (uninit 4) ''box2'',
      DrawBoxMesh,

      SetTransformations g (3.5, 3, 2.5) 0 0 0 (0, 6, 2),
      SetShaderColor 0.871 0.804 0.675 1,
      SetShaderTexture ''stone'',
      SetShaderMaterial (uninit 5) ''box3'',
      DrawBoxMesh,

      SetTransformations g (2, 1, 2.5) 0 0 0 (0, 8, 2),
      SetShaderColor 0.871 0.804 0.675 1,
      SetShaderTexture ''stone'',
      SetShaderMaterial (uninit 6) ''box4'',
      DrawBoxMesh,

      SetTransformations g (1.75, 2, 2.3) (- 90) 0 0 (0, 9.3, 2),
      SetShaderColor 0.871 0.804 0.675 1,
      SetShaderTexture ''stone'',
      SetShaderMaterial (uninit 7) ''prism'',
      DrawPrismMesh]"

text \<open>A run of calls of \<open>CreateGLTexture\<close>, each with what its two external calls answer,
  its file name and its tag; the returned flag is dropped, as \<open>LoadSceneTextures\<close> does.\<close>

fun CreateGLTexture_calls ::
  "(image option \<times> GLuint \<times> string \<times> string) list \<Rightarrow> SceneManager
     \<Rightarrow> undefined_behaviour + SceneManager" where
  "CreateGLTexture_calls [] s = Inr s"
| "CreateGLTexture_calls ((img, textureID, filename, tg) # rest) s =
    (case CreateGLTexture img textureID filename tg s of
       Inl ub \<Rightarrow> Inl ub
     | Inr (bReturn, s') \<Rightarrow> CreateGLTexture_calls rest s')"

section \<open>Reading the log of calls\<close>

text \<open>
  Modelled from the spec: the shader parameter store behind \<open>ShaderManager\<close> (its code is
  not under src/) is "a named key to value map accepting typed values", where the "last
  write wins". \<open>parameter_store cs\<close> is the store after the calls \<open>cs\<close>, from an empty one.
\<close>

datatype param =
    Mat4Param mat4 | IntParam int | Vec4Param vec4 | Sampler2DParam int | Vec2Param vec2
  | Vec3Param vec3 | FloatParam real

fun store_call :: "(string \<rightharpoonup> param) \<Rightarrow> call \<Rightarrow> (string \<rightharpoonup> param)" where
  "store_call m (setMat4Value k v) = m(k \<mapsto> Mat4Param v)"
| "store_call m (setIntValue k v) = m(k \<mapsto> IntParam v)"
| "store_call m (setVec4Value k v) = m(k \<mapsto> Vec4Param v)"
| "store_call m (setSampler2DValue k v) = m(k \<mapsto> Sampler2DParam v)"
| "store_call m (setVec2Value k v) = m(k \<mapsto> Vec2Param v)"
| "store_call m (setVec3Value k v) = m(k \<mapsto> Vec3Param v)"
| "store_call m (setFloatValue k v) = m(k \<mapsto> FloatParam v)"
| "store_call m _ = m"

definition parameter_store :: "call list \<Rightarrow> (string \<rightharpoonup> param)" where
  "parameter_store cs = foldl store_call Map.empty cs"

text \<open>The key a call writes in the store, if it is a write.\<close>

fun written_key :: "call \<Rightarrow> string option" where
  "written_key (setMat4Value k v) = Some k"
| "written_key (setIntValue k v) = Some k"
| "written_key (setVec4Value k v) = Some k"
| "written_key (setSampler2DValue k v) = Some k"
| "written_key (setVec2Value k v) = Some k"
| "written_key (setVec3Value k v) = Some k"
| "written_key (setFloatValue k v) = Some k"
| "written_key _ = None"

definition writes_to :: "string \<Rightarrow> call list \<Rightarrow> nat" where
  "writes_to k cs = length (filter (\<lambda>c. written_key c = Some k) cs)"

text \<open>The log cut at its draw calls: for every draw, the calls since the draw before
  it, and the mesh drawn. Calls after the last draw belong to no draw.\<close>

fun draw_segments :: "call list \<Rightarrow> call list \<Rightarrow> (call list \<times> mesh) list" where
  "draw_segments acc [] = []"
| "draw_segments acc (Draw m # cs) = (acc, m) # draw_segments [] cs"
| "draw_segments acc (c # cs) = draw_segments (acc @ [c]) cs"

text \<open>The matrix \<open>SetTransformations\<close> computes, and the calls \<open>RenderScene\<close> makes for one
  object before its draw call: the transform, the two calls of \<open>SetShaderColor\<close>, the two
  of \<open>SetShaderTexture\<close>, and the five material parameters.\<close>

definition model_matrix :: "glm \<Rightarrow> vec3 \<Rightarrow> real \<Rightarrow> real \<Rightarrow> real \<Rightarrow> vec3 \<Rightarrow> mat4" where
  "model_matrix g scaleXYZ rx ry rz positionXYZ =
    glm_mul g
      (glm_mul g
        (glm_mul g
          (glm_mul g (glm_translate g positionXYZ) (glm_rotate g (glm_radians g rx) (1, 0, 0)))
          (glm_rotate g (glm_radians g ry) (0, 1, 0)))
        (glm_rotate g (glm_radians g rz) (0, 0, 1)))
      (glm_scale g scaleXYZ)"

definition material_calls :: "OBJECT_MATERIAL \<Rightarrow> call list" where
  "material_calls material =
    [setVec3Value ''material.ambientColor'' (ambientColor material),
     setFloatValue ''material.ambientStrength'' (ambientStrength material),
     setVec3Value ''material.diffuseColor'' (diffuseColor material),
     setVec3Value ''material.specularColor'' (specularColor material),
     setFloatValue ''material.shininess'' (shininess material)]"

definition object_calls :: "mat4 \<Rightarrow> vec4 \<Rightarrow> int \<Rightarrow> OBJECT_MATERIAL \<Rightarrow> call list" where
  "object_calls modelView color slot material =
    [setMat4Value ''model'' modelView,
     setIntValue ''bUseTexture'' 0, setVec4Value ''objectColor'' color,
     setIntValue ''bUseTexture'' 1, setSampler2DValue ''objectTexture'' slot]
    @ material_calls material"

section \<open>Example inputs\<close>

text \<open>An exact-arithmetic implementation of the GLM operations (GLM's formulas over the
  reals), to instantiate the parameter \<open>g\<close>.\<close>

definition mat4_mul_vec4 :: "mat4 \<Rightarrow> vec4 \<Rightarrow> vec4" where
  "mat4_mul_vec4 m v =
    (case m of ((a0, a1, a2, a3), (b0, b1, b2, b3), (c0, c1, c2, c3), (d0, d1, d2, d3)) \<Rightarrow>
     case v of (x, y, z, w) \<Rightarrow>
       (a0 * x + b0 * y + c0 * z + d0 * w,
        a1 * x + b1 * y + c1 * z + d1 * w,
        a2 * x + b2 * y + c2 * z + d2 * w,
        a3 * x + b3 * y + c3 * z + d3 * w))"

definition exact_mul :: "mat4 \<Rightarrow> mat4 \<Rightarrow> mat4" where
  "exact_mul m n =
    (case n of (n0, n1, n2, n3) \<Rightarrow>
       (mat4_mul_vec4 m n0, mat4_mul_vec4 m n1, mat4_mul_vec4 m n2, mat4_mul_vec4 m n3))"

definition exact_scale :: "vec3 \<Rightarrow> mat4" where
  "exact_scale v =
    (case v of (x, y, z) \<Rightarrow> ((x, 0, 0, 0), (0, y, 0, 0), (0, 0, z, 0), (0, 0, 0, 1)))"

definition exact_translate :: "vec3 \<Rightarrow> mat4" where
  "exact_translate v =
    (case v of (x, y, z) \<Rightarrow> ((1, 0, 0, 0), (0, 1, 0, 0), (0, 0, 1, 0), (x, y, z, 1)))"

definition exact_rotate :: "real \<Rightarrow> vec3 \<Rightarrow> mat4" where
  "exact_rotate a v =
    (case v of (x, y, z) \<Rightarrow>
       (let n = sqrt (x * x + y * y + z * z);
            ax = x / n; ay = y / n; az = z / n;
            c = cos a; s = sin a; t = 1 - c
        in ((c + t * ax * ax, t * ax * ay + s * az, t * ax * az - s * ay, 0),
            (t * ay * ax - s * az, c + t * ay * ay, t * ay * az + s * ax, 0),
            (t * az * ax + s * ay, t * az * ay - s * ax, c + t * az * az, 0),
            (0, 0, 0, 1))))"

definition exact_radians :: "real \<Rightarrow> real" where
  "exact_radians d = d * pi / 180"

definition glm_exact :: glm where
  "glm_exact = \<lparr>glm_scale = exact_scale, glm_rotate = exact_rotate,
     glm_translate = exact_translate, glm_radians = exact_radians, glm_mul = exact_mul\<rparr>"

definition mat4_identity :: mat4 where
  "mat4_identity = ((1, 0, 0, 0), (0, 1, 0, 0), (0, 0, 1, 0), (0, 0, 0, 1))"

text \<open>A scene manager whose sixteen-entry table holds the four textures of
  \<open>LoadSceneTextures\<close> in its first four slots and whose material list is still empty.\<close>

definition loaded_scene :: SceneManager where
  "loaded_scene =
    \<lparr>m_pShaderManager = NonNull,
     m_textureIDs =
       [\<lparr>ID = 1, tag = ''stone''\<rparr>, \<lparr>ID = 2, tag = ''bush''\<rparr>,
        \<lparr>ID = 3, tag = ''ground''\<rparr>, \<lparr>ID = 4, tag = ''sky''\<rparr>]
       @ replicate 12 \<lparr>ID = 0, tag = []\<rparr>,
     m_loadedTextures = 4,
     m_objectMaterials = [],
     calls = []\<rparr>"

text \<open>The same table with no texture loaded yet.\<close>

definition empty_scene :: SceneManager where
  "empty_scene =
    \<lparr>m_pShaderManager = NonNull,
     m_textureIDs = replicate 16 \<lparr>ID = 0, tag = []\<rparr>,
     m_loadedTextures = 0,
     m_objectMaterials = [],
     calls = []\<rparr>"

text \<open>A table of sixteen entries, all of them occupied.\<close>

definition full_scene :: SceneManager where
  "full_scene =
    \<lparr>m_pShaderManager = NonNull,
     m_textureIDs = replicate 16 \<lparr>ID = 7, tag = ''stone''\<rparr>,
     m_loadedTextures = 16,
     m_objectMaterials = [],
     calls = []\<rparr>"

text \<open>An uninitialised \<open>OBJECT_MATERIAL\<close> whose bytes happen to be these.\<close>

definition stack_garbage :: OBJECT_MATERIAL where
  "stack_garbage = \<lparr>ambientColor = (9, 9, 9), ambientStrength = 9,
     diffuseColor = (9, 9, 9), specularColor = (9, 9, 9), shininess = 9,
     material_tag = []\<rparr>"

definition rgb_image :: image where
  "rgb_image = \<lparr>width = 64, height = 64, colorChannels = 3\<rparr>"

definition grey_image :: image where
  "grey_image = \<lparr>width = 64, height = 64, colorChannels = 1\<rparr>"

text \<open>Texture names for \<open>glGenTextures\<close> to hand out: \<open>base\<close>, \<open>base + 1\<close>, ...\<close>

definition gl_names :: "GLuint \<Rightarrow> int \<Rightarrow> GLuint" where
  "gl_names base i = base + word_of_int i"

text \<open>\<open>loaded_scene\<close> with the names 100 to 103 in its four occupied slots, after four
  calls of \<open>glGenTextures\<close>.\<close>

definition regenerated_scene :: SceneManager where
  "regenerated_scene =
    \<lparr>m_pShaderManager = NonNull,
     m_textureIDs =
       [\<lparr>ID = 100, tag = ''stone''\<rparr>, \<lparr>ID = 101, tag = ''bush''\<rparr>,
        \<lparr>ID = 102, tag = ''ground''\<rparr>, \<lparr>ID = 103, tag = ''sky''\<rparr>]
       @ replicate 12 \<lparr>ID = 0, tag = []\<rparr>,
     m_loadedTextures = 4,
     m_objectMaterials = [],
     calls = [glGenTextures 100, glGenTextures 101, glGenTextures 102, glGenTextures 103]\<rparr>"

text \<open>Every uninitialised local of \<open>RenderScene\<close> holding the same garbage.\<close>

definition garbage_locals :: "nat \<Rightarrow> OBJECT_MATERIAL" where
  "garbage_locals n = stack_garbage"

text \<open>For the calls before one draw: how many write the colour, how many the sampler.\<close>

definition appearance_writes :: "call list \<times> mesh \<Rightarrow> nat \<times> nat" where
  "appearance_writes seg =
     (writes_to ''objectColor'' (fst seg), writes_to ''objectTexture'' (fst seg))"

text \<open>The counter is within the table and the tags of the occupied slots all come from
  the set \<open>T\<close>.\<close>

definition tags_within :: "string set \<Rightarrow> SceneManager \<Rightarrow> bool" where
  "tags_within T s \<longleftrightarrow>
     0 \<le> m_loadedTextures s \<and> m_loadedTextures s \<le> int (length (m_textureIDs s)) \<and>
     (\<forall>j. 0 \<le> j \<and> j < m_loadedTextures s \<longrightarrow> tag (m_textureIDs s ! nat j) \<in> T)"

section \<open>Auxiliary facts\<close>

lemma emit_fields [simp]:
  "m_pShaderManager (emit cs s) = m_pShaderManager s"
  "m_textureIDs (emit cs s) = m_textureIDs s"
  "m_loadedTextures (emit cs s) = m_loadedTextures s"
  "m_objectMaterials (emit cs s) = m_objectMaterials s"
  "calls (emit cs s) = calls s @ cs"
  by (simp_all add: emit_def)

lemma emit_emit: "emit cs (emit ds s) = emit (ds @ cs) s"
  by (simp add: emit_def)

lemma in_bounds_emit [simp]: "in_bounds (emit cs s) i = in_bounds s i"
  by (simp add: in_bounds_def)

lemma in_bounds_nat: "in_bounds s i \<Longrightarrow> nat i < length (m_textureIDs s)"
  by (simp add: in_bounds_def nat_less_iff)

lemma FindTextureSlot_while_emit:
  "FindTextureSlot_while (emit cs s) tg st = FindTextureSlot_while s tg st"
proof (induction s tg st rule: FindTextureSlot_while.induct)
  case (1 s tg textureSlot index bFound)
  show ?case
    unfolding FindTextureSlot_while.simps [of "emit cs s" tg textureSlot index bFound]
      FindTextureSlot_while.simps [of s tg textureSlot index bFound]
    using 1 by simp
qed

lemma FindTextureSlot_while_found:
  assumes "m_loadedTextures s \<le> int (length (m_textureIDs s))"
    and "0 \<le> index" and "index \<le> k" and "k < m_loadedTextures s"
    and "tag (m_textureIDs s ! nat k) = tg"
    and "\<forall>j. index \<le> j \<and> j < k \<longrightarrow> tag (m_textureIDs s ! nat j) \<noteq> tg"
  shows "FindTextureSlot_while s tg (ts, index, False) = Inr (k, k, True)"
  using assms
proof (induction "nat (k - index)" arbitrary: index ts)
  case 0
  then have "index = k" by simp
  with 0 show ?case
    by (simp add: FindTextureSlot_while.simps [of s tg] in_bounds_def)
next
  case (Suc n)
  then have lt: "index < k" by simp
  with Suc.prems have ne: "tag (m_textureIDs s ! nat index) \<noteq> tg" by simp
  have "FindTextureSlot_while s tg (ts, index + 1, False) = Inr (k, k, True)"
    using Suc.hyps Suc.prems lt by (intro Suc.hyps(1)) auto
  with lt ne Suc.prems show ?case
    by (simp add: FindTextureSlot_while.simps [of s tg ts index] in_bounds_def)
qed

lemma FindTextureSlot_while_absent:
  assumes "m_loadedTextures s \<le> int (length (m_textureIDs s))"
    and "0 \<le> index"
    and "\<forall>j. index \<le> j \<and> j < m_loadedTextures s \<longrightarrow> tag (m_textureIDs s ! nat j) \<noteq> tg"
  shows "\<exists>i. FindTextureSlot_while s tg (ts, index, False) = Inr (ts, i, False)"
  using assms
proof (induction "nat (m_loadedTextures s - index)" arbitrary: index)
  case 0
  then show ?case
    by (simp add: FindTextureSlot_while.simps [of s tg ts index])
next
  case (Suc n)
  then have lt: "index < m_loadedTextures s" by simp
  with Suc.prems have ne: "tag (m_textureIDs s ! nat index) \<noteq> tg" by simp
  have "\<exists>i. FindTextureSlot_while s tg (ts, index + 1, False) = Inr (ts, i, False)"
    using Suc.hyps Suc.prems lt by (intro Suc.hyps(1)) auto
  with lt ne Suc.prems show ?case
    by (simp add: FindTextureSlot_while.simps [of s tg ts index] in_bounds_def)
qed

lemma FindTextureSlot_emit [simp]: "FindTextureSlot tg (emit cs s) = FindTextureSlot tg s"
  by (simp add: FindTextureSlot_def FindTextureSlot_while_emit)

lemma FindTextureSlot_found:
  assumes "m_loadedTextures s \<le> int (length (m_textureIDs s))"
    and "0 \<le> k" and "k < m_loadedTextures s"
    and "tag (m_textureIDs s ! nat k) = tg"
    and "\<forall>j. 0 \<le> j \<and> j < k \<longrightarrow> tag (m_textureIDs s ! nat j) \<noteq> tg"
  shows "FindTextureSlot tg s = Inr k"
  using FindTextureSlot_while_found [of s 0 k tg "- 1"] assms
  by (simp add: FindTextureSlot_def)

lemma FindTextureSlot_absent:
  assumes "m_loadedTextures s \<le> int (length (m_textureIDs s))"
    and "\<forall>j. 0 \<le> j \<and> j < m_loadedTextures s \<longrightarrow> tag (m_textureIDs s ! nat j) \<noteq> tg"
  shows "FindTextureSlot tg s = Inr (- 1)"
proof -
  obtain i where "FindTextureSlot_while s tg (- 1, 0, False) = Inr (- 1, i, False)"
    using FindTextureSlot_while_absent [of s 0 tg "- 1"] assms by auto
  then show ?thesis by (simp add: FindTextureSlot_def)
qed

lemma FindTextureSlot_cases:
  assumes wf: "m_loadedTextures s \<le> int (length (m_textureIDs s))"
  shows "(FindTextureSlot tg s = Inr (- 1)
            \<and> (\<forall>j. 0 \<le> j \<and> j < m_loadedTextures s \<longrightarrow> tag (m_textureIDs s ! nat j) \<noteq> tg))
       \<or> (\<exists>k. FindTextureSlot tg s = Inr k \<and> 0 \<le> k \<and> k < m_loadedTextures s
               \<and> tag (m_textureIDs s ! nat k) = tg
               \<and> (\<forall>j. 0 \<le> j \<and> j < k \<longrightarrow> tag (m_textureIDs s ! nat j) \<noteq> tg))"
proof (cases "\<exists>j. 0 \<le> j \<and> j < m_loadedTextures s \<and> tag (m_textureIDs s ! nat j) = tg")
  case False
  then have none: "\<forall>j. 0 \<le> j \<and> j < m_loadedTextures s \<longrightarrow> tag (m_textureIDs s ! nat j) \<noteq> tg"
    by blast
  then have "FindTextureSlot tg s = Inr (- 1)"
    using wf by (intro FindTextureSlot_absent)
  with none show ?thesis by blast
next
  case True
  then obtain j where j: "0 \<le> j" "j < m_loadedTextures s" "tag (m_textureIDs s ! nat j) = tg"
    by blast
  define P where "P n \<longleftrightarrow> int n < m_loadedTextures s \<and> tag (m_textureIDs s ! n) = tg" for n
  have "P (nat j)" using j by (simp add: P_def)
  define k where "k = (LEAST n. P n)"
  have Pk: "P k" unfolding k_def using \<open>P (nat j)\<close> by (rule LeastI)
  have least: "\<And>n. n < k \<Longrightarrow> \<not> P n" unfolding k_def by (rule not_less_Least)
  have before: "\<forall>i. 0 \<le> i \<and> i < int k \<longrightarrow> tag (m_textureIDs s ! nat i) \<noteq> tg"
  proof (intro allI impI)
    fix i assume i: "0 \<le> i \<and> i < int k"
    then have "nat i < k" by linarith
    then have "\<not> P (nat i)" by (rule least)
    moreover have "int (nat i) < m_loadedTextures s" using i Pk by (simp add: P_def)
    ultimately show "tag (m_textureIDs s ! nat i) \<noteq> tg" by (simp add: P_def)
  qed
  then have "FindTextureSlot tg s = Inr (int k)"
    using wf Pk by (intro FindTextureSlot_found) (simp_all add: P_def)
  with Pk before have "FindTextureSlot tg s = Inr (int k) \<and> 0 \<le> int k \<and> int k < m_loadedTextures s
               \<and> tag (m_textureIDs s ! nat (int k)) = tg
               \<and> (\<forall>j. 0 \<le> j \<and> j < int k \<longrightarrow> tag (m_textureIDs s ! nat j) \<noteq> tg)"
    by (simp add: P_def)
  then show ?thesis by blast
qed

lemma FindTextureSlot_total:
  assumes wf: "m_loadedTextures s \<le> int (length (m_textureIDs s))"
  shows "\<exists>slot. FindTextureSlot tg s = Inr slot \<and> - 1 \<le> slot \<and> slot < max 0 (m_loadedTextures s)"
  using FindTextureSlot_cases [OF wf, of tg] by auto

lemma FindTextureSlot_defined:
  "m_loadedTextures s \<le> int (length (m_textureIDs s)) \<Longrightarrow> \<not> isl (FindTextureSlot tg s)"
  using FindTextureSlot_total [of s tg] by auto

lemma FindTextureSlot_while_DefineObjectMaterials:
  "FindTextureSlot_while (DefineObjectMaterials s) tg st = FindTextureSlot_while s tg st"
proof (induction s tg st rule: FindTextureSlot_while.induct)
  case (1 s tg textureSlot index bFound)
  have same: "m_loadedTextures (DefineObjectMaterials s) = m_loadedTextures s"
    "m_textureIDs (DefineObjectMaterials s) = m_textureIDs s"
    "in_bounds (DefineObjectMaterials s) index = in_bounds s index"
    by (simp_all add: DefineObjectMaterials_def in_bounds_def)
  show ?case
    unfolding FindTextureSlot_while.simps [of "DefineObjectMaterials s" tg textureSlot index bFound]
      FindTextureSlot_while.simps [of s tg textureSlot index bFound] same
    using 1 by (simp add: same)
qed

lemma FindTextureSlot_DefineObjectMaterials [simp]:
  "FindTextureSlot tg (DefineObjectMaterials s) = FindTextureSlot tg s"
  by (simp add: FindTextureSlot_def FindTextureSlot_while_DefineObjectMaterials)

lemma parameter_store_append:
  "parameter_store (cs @ ds) = foldl store_call (parameter_store cs) ds"
  by (simp add: parameter_store_def)

lemma int_below_4: "0 \<le> j \<and> j < (4::int) \<Longrightarrow> j = 0 \<or> j = 1 \<or> j = 2 \<or> j = 3"
  by arith

lemma TEXTURE_INFO_both: "(e::TEXTURE_INFO)\<lparr>ID := a, tag := b\<rparr> = \<lparr>ID = a, tag = b\<rparr>"
  by (cases e) simp

lemma CreateGLTexture_True:
  assumes "CreateGLTexture img textureID filename tg s = Inr (True, s')"
  shows "in_bounds s (m_loadedTextures s)"
    and "m_loadedTextures s' = m_loadedTextures s + 1"
    and "m_textureIDs s' = (m_textureIDs s)[nat (m_loadedTextures s) := \<lparr>ID = textureID, tag = tg\<rparr>]"
  using assms
  by (auto simp add: CreateGLTexture_def Let_def TEXTURE_INFO_both in_bounds_nat
      split: option.splits if_splits)

lemma CreateGLTexture_False:
  assumes "CreateGLTexture img textureID filename tg s = Inr (False, s')"
  shows "m_loadedTextures s' = m_loadedTextures s" and "m_textureIDs s' = m_textureIDs s"
  using assms
  by (auto simp add: CreateGLTexture_def Let_def split: option.splits if_splits)

lemma CreateGLTexture_valid_image:
  assumes "colorChannels im = 3 \<or> colorChannels im = 4" and "in_bounds s (m_loadedTextures s)"
  shows "\<exists>s'. CreateGLTexture (Some im) textureID filename tg s = Inr (True, s')"
  using assms by (auto simp add: CreateGLTexture_def Let_def)

lemma CreateGLTexture_at_capacity:
  assumes "colorChannels im = 3 \<or> colorChannels im = 4"
    and "m_loadedTextures s = int (length (m_textureIDs s))"
  shows "CreateGLTexture (Some im) textureID filename tg s =
           Inl (OutOfBoundsWrite (m_loadedTextures s))"
  using assms by (auto simp add: CreateGLTexture_def Let_def in_bounds_def)

lemma DestroyGLTextures_for_only_generates:
  "DestroyGLTextures_for gen i s = Inr s' \<Longrightarrow>
     m_loadedTextures s' = m_loadedTextures s \<and>
     map tag (m_textureIDs s') = map tag (m_textureIDs s) \<and>
     (\<exists>names. calls s' = calls s @ map glGenTextures names)"
proof (induction gen i s rule: DestroyGLTextures_for.induct)
  case (1 gen i s)
  show ?case
  proof (cases "i < m_loadedTextures s")
    case False
    with "1.prems" show ?thesis
      by (simp add: DestroyGLTextures_for.simps [of gen i s])
  next
    case True
    let ?s1 = "emit [glGenTextures (gen i)]
                  (s\<lparr>m_textureIDs :=
                       (m_textureIDs s)[nat i := (m_textureIDs s ! nat i)\<lparr>ID := gen i\<rparr>]\<rparr>)"
    from True "1.prems" have ib: "in_bounds s i" and rest: "DestroyGLTextures_for gen (i + 1) ?s1 = Inr s'"
      by (auto simp add: DestroyGLTextures_for.simps [of gen i s] split: if_splits)
    from "1.IH" [OF True _ rest] ib
    have ih: "m_loadedTextures s' = m_loadedTextures ?s1 \<and>
      map tag (m_textureIDs s') = map tag (m_textureIDs ?s1) \<and>
      (\<exists>names. calls s' = calls ?s1 @ map glGenTextures names)"
      by simp
    then obtain names where names: "calls s' = calls ?s1 @ map glGenTextures names" by blast
    have tags: "map tag (m_textureIDs ?s1) = map tag (m_textureIDs s)"
      using ib in_bounds_nat [OF ib]
      by (simp add: map_update list_update_same_conv)
    have "calls s' = calls s @ map glGenTextures (gen i # names)"
      using names by simp
    then have "\<exists>names. calls s' = calls s @ map glGenTextures names" by blast
    with ih tags show ?thesis by simp
  qed
qed

lemma tags_within_CreateGLTexture:
  assumes "tags_within T s" and "CreateGLTexture img textureID filename tg s = Inr (b, s')"
  shows "tags_within (insert tg T) s'"
proof (cases b)
  case False
  with assms(2) have "m_loadedTextures s' = m_loadedTextures s" "m_textureIDs s' = m_textureIDs s"
    by (simp_all add: CreateGLTexture_False)
  with assms(1) show ?thesis by (simp add: tags_within_def)
next
  case True
  with assms(2) have ok: "CreateGLTexture img textureID filename tg s = Inr (True, s')" by simp
  note facts = CreateGLTexture_True [OF ok]
  show ?thesis
    unfolding tags_within_def
  proof (intro conjI allI impI)
    show "0 \<le> m_loadedTextures s'" using facts assms(1) by (simp add: tags_within_def)
    show "m_loadedTextures s' \<le> int (length (m_textureIDs s'))"
      using facts by (simp add: in_bounds_def)
    fix j assume j: "0 \<le> j \<and> j < m_loadedTextures s'"
    show "tag (m_textureIDs s' ! nat j) \<in> insert tg T"
    proof (cases "j = m_loadedTextures s")
      case True
      then show ?thesis using facts by (simp add: in_bounds_nat)
    next
      case False
      with j facts(2) have lt: "0 \<le> j \<and> j < m_loadedTextures s" by simp
      then have "nat j \<noteq> nat (m_loadedTextures s)" by linarith
      then have "m_textureIDs s' ! nat j = m_textureIDs s ! nat j"
        using facts(3) by simp
      with lt assms(1) show ?thesis by (simp add: tags_within_def)
    qed
  qed
qed

lemma tags_within_CreateGLTexture_calls:
  assumes "tags_within T s" and "CreateGLTexture_calls loads s = Inr s1"
  shows "tags_within (T \<union> set (map (\<lambda>(img, textureID, filename, t). t) loads)) s1"
  using assms
proof (induction loads arbitrary: T s)
  case Nil
  then show ?case by simp
next
  case (Cons l loads)
  obtain img textureID filename t where l: "l = (img, textureID, filename, t)"
    by (cases l) auto
  from Cons.prems(2) l obtain b s' where
    step: "CreateGLTexture img textureID filename t s = Inr (b, s')"
    and rest: "CreateGLTexture_calls loads s' = Inr s1"
    by (auto split: sum.splits)
  have "tags_within (insert t T) s'"
    using Cons.prems(1) step by (rule tags_within_CreateGLTexture)
  then have "tags_within (insert t T \<union> set (map (\<lambda>(img, textureID, filename, t). t) loads)) s1"
    using rest by (rule Cons.IH)
  then show ?case using l by simp
qed

lemma FindMaterial_emit [simp]: "FindMaterial tg u (emit cs s) = FindMaterial tg u s"
  by (simp add: FindMaterial_def)

lemma FindMaterial_nonempty: "m_objectMaterials s \<noteq> [] \<Longrightarrow> fst (FindMaterial tg u s) = True"
  by (simp add: FindMaterial_def split: prod.splits)

lemma FindMaterial_while_absent:
  assumes "\<forall>j. index \<le> j \<and> j < length ms \<longrightarrow> material_tag (ms ! j) \<noteq> tg"
  shows "\<exists>i. FindMaterial_while ms tg (index, False, material) = (i, False, material)"
  using assms
proof (induction "length ms - index" arbitrary: index)
  case 0
  then show ?case by (simp add: FindMaterial_while.simps [of ms tg index])
next
  case (Suc n)
  then have lt: "index < length ms" by simp
  with Suc.prems have ne: "material_tag (ms ! index) \<noteq> tg" by simp
  have "\<exists>i. FindMaterial_while ms tg (index + 1, False, material) = (i, False, material)"
    using Suc.hyps Suc.prems by (intro Suc.hyps(1)) auto
  with lt ne show ?case
    by (simp add: FindMaterial_while.simps [of ms tg index])
qed

lemma FindMaterial_while_found:
  assumes "index \<le> k" and "k < length ms" and "material_tag (ms ! k) = tg"
    and "\<forall>j. index \<le> j \<and> j < k \<longrightarrow> material_tag (ms ! j) \<noteq> tg"
  shows "FindMaterial_while ms tg (index, False, material) =
           (k, True,
            material\<lparr>ambientColor := ambientColor (ms ! k),
                     ambientStrength := ambientStrength (ms ! k),
                     diffuseColor := diffuseColor (ms ! k),
                     specularColor := specularColor (ms ! k),
                     shininess := shininess (ms ! k)\<rparr>)"
  using assms
proof (induction "k - index" arbitrary: index)
  case 0
  then have "index = k" by simp
  with 0 show ?case
    by (simp add: FindMaterial_while.simps [of ms tg])
next
  case (Suc n)
  then have lt: "index < k" by simp
  with Suc.prems have ne: "material_tag (ms ! index) \<noteq> tg" by simp
  have "FindMaterial_while ms tg (index + 1, False, material) =
           (k, True,
            material\<lparr>ambientColor := ambientColor (ms ! k),
                     ambientStrength := ambientStrength (ms ! k),
                     diffuseColor := diffuseColor (ms ! k),
                     specularColor := specularColor (ms ! k),
                     shininess := shininess (ms ! k)\<rparr>)"
    using Suc.hyps Suc.prems lt by (intro Suc.hyps(1)) auto
  with lt ne Suc.prems show ?case
    by (simp add: FindMaterial_while.simps [of ms tg index])
qed

lemma SetShaderMaterial_unmatched:
  assumes "m_pShaderManager s \<noteq> NULL" and "m_objectMaterials s \<noteq> []"
    and "\<forall>j. j < length (m_objectMaterials s) \<longrightarrow> material_tag (m_objectMaterials s ! j) \<noteq> tg"
  shows "SetShaderMaterial uninit tg s = Inr (emit (material_calls uninit) s)"
proof -
  obtain i where "FindMaterial_while (m_objectMaterials s) tg (0, False, uninit) = (i, False, uninit)"
    using FindMaterial_while_absent [of 0 "m_objectMaterials s" tg uninit] assms(3) by auto
  then show ?thesis
    using assms(1,2)
    by (simp add: SetShaderMaterial_def FindMaterial_def material_calls_def)
qed

lemma SetShaderMaterial_matched:
  assumes "m_pShaderManager s \<noteq> NULL" and "k < length (m_objectMaterials s)"
    and "material_tag (m_objectMaterials s ! k) = tg"
    and "\<forall>j. j < k \<longrightarrow> material_tag (m_objectMaterials s ! j) \<noteq> tg"
  shows "SetShaderMaterial uninit tg s = Inr (emit (material_calls (m_objectMaterials s ! k)) s)"
proof -
  have ne: "m_objectMaterials s \<noteq> []" using assms(2) by auto
  show ?thesis
    using assms(1) ne FindMaterial_while_found [of 0 k "m_objectMaterials s" tg uninit] assms(2-4)
    by (simp add: SetShaderMaterial_def FindMaterial_def material_calls_def)
qed

lemma SetTransformations_model_matrix:
  "SetTransformations g scaleXYZ rx ry rz positionXYZ s =
    (if m_pShaderManager s \<noteq> NULL
     then Inr (emit [setMat4Value ''model'' (model_matrix g scaleXYZ rx ry rz positionXYZ)] s)
     else Inr s)"
  by (simp add: SetTransformations_def model_matrix_def g_ModelName_def Let_def)

lemma bind_object:
  assumes "m_pShaderManager s \<noteq> NULL" and "\<not> isl (FindTextureSlot tg s)"
    and "m_objectMaterials s \<noteq> []"
  shows "sequence (SetTransformations g scaleXYZ rx ry rz positionXYZ # SetShaderColor r gr b a
            # SetShaderTexture tg # SetShaderMaterial u mtg # rest) s =
         sequence rest
           (emit (object_calls (model_matrix g scaleXYZ rx ry rz positionXYZ) (r, gr, b, a)
                    (projr (FindTextureSlot tg s)) (snd (FindMaterial mtg u s))) s)"
proof -
  obtain slot where slot: "FindTextureSlot tg s = Inr slot"
    using assms(2) by (cases "FindTextureSlot tg s") auto
  obtain m where m: "FindMaterial mtg u s = (True, m)"
    using FindMaterial_nonempty [OF assms(3), of mtg u] by (cases "FindMaterial mtg u s") auto
  show ?thesis
    using assms(1,3) slot m
    by (simp add: SetTransformations_model_matrix SetShaderColor_def SetShaderTexture_def
        SetShaderMaterial_def g_UseTextureName_def g_ColorValueName_def g_TextureValueName_def
        emit_emit object_calls_def material_calls_def)
qed

lemma authored_materials:
  assumes "m_objectMaterials s =
      [box1Material, box2Material, box3Material, box4Material, prismMaterial,
       torusMaterial, topPlaneMaterial, bottomPlaneMaterial]"
  shows "material_calls (snd (FindMaterial ''box1'' u s)) = material_calls box1Material"
    and "material_calls (snd (FindMaterial ''box2'' u s)) = material_calls box2Material"
    and "material_calls (snd (FindMaterial ''box3'' u s)) = material_calls box3Material"
    and "material_calls (snd (FindMaterial ''box4'' u s)) = material_calls box4Material"
    and "material_calls (snd (FindMaterial ''prism'' u s)) = material_calls prismMaterial"
    and "material_calls (snd (FindMaterial ''torus'' u s)) = material_calls torusMaterial"
    and "material_calls (snd (FindMaterial ''topPlane'' u s)) = material_calls topPlaneMaterial"
    and "material_calls (snd (FindMaterial ''bottomPlane'' u s)) = material_calls bottomPlaneMaterial"
  using assms
  by (simp_all add: FindMaterial_def FindMaterial_while.simps material_calls_def
      box1Material_def box2Material_def box3Material_def box4Material_def prismMaterial_def
      torusMaterial_def topPlaneMaterial_def bottomPlaneMaterial_def)

lemma object_calls_material:
  "material_calls m = material_calls m' \<Longrightarrow> object_calls M c sl m = object_calls M c sl m'"
  by (simp add: object_calls_def)

lemma sequence_draw:
  "sequence (DrawPlaneMesh # rest) s = sequence rest (emit [Draw PlaneMesh] s)"
  "sequence (DrawTorusMesh # rest) s = sequence rest (emit [Draw TorusMesh] s)"
  "sequence (DrawBoxMesh # rest) s = sequence rest (emit [Draw BoxMesh] s)"
  "sequence (DrawPrismMesh # rest) s = sequence rest (emit [Draw PrismMesh] s)"
  by (simp_all add: DrawPlaneMesh_def DrawTorusMesh_def DrawBoxMesh_def DrawPrismMesh_def)

lemma draw_segments_object:
  "draw_segments [] (object_calls M c sl m @ Draw k # rest) =
     (object_calls M c sl m, k) # draw_segments [] rest"
  by (simp add: object_calls_def material_calls_def)

lemma RenderScene_calls:
  assumes nn: "m_pShaderManager s \<noteq> NULL"
    and wf: "m_loadedTextures s \<le> int (length (m_textureIDs s))"
    and mats: "m_objectMaterials s =
      [box1Material, box2Material, box3Material, box4Material, prismMaterial,
       torusMaterial, topPlaneMaterial, bottomPlaneMaterial]"
  shows "RenderScene g u s =
    Inr (emit
      (object_calls (model_matrix g (20, 1, 10) 0 0 0 (0, 0, 0)) (1, 1, 1, 1)
         (projr (FindTextureSlot ''ground'' s)) bottomPlaneMaterial @ [Draw PlaneMesh]
       @ object_calls (model_matrix g (20, 1, 10) 90 0 0 (0, 9, - 10)) (1, 1, 1, 1)
         (projr (FindTextureSlot ''sky'' s)) topPlaneMaterial @ [Draw PlaneMesh]
       @ object_calls (model_matrix g (10, 6, 2) 90 0 0 (0, 0, 2)) (0.243, 0.651, 0.286, 1)
         (projr (FindTextureSlot ''bush'' s)) torusMaterial @ [Draw TorusMesh]
       @ object_calls (model_matrix g (7, 4, 3) 0 0 0 (0, 1, 2.5)) (0.871, 0.804, 0.675, 1)
         (projr (FindTextureSlot ''stone'' s)) box1Material @ [Draw BoxMesh]
       @ object_calls (model_matrix g (5, 2.5, 3) 0 0 0 (0, 3.5, 2.5)) (0.871, 0.804, 0.675, 1)
         (projr (FindTextureSlot ''stone'' s)) box2Material @ [Draw BoxMesh]
       @ object_calls (model_matrix g (3.5, 3, 2.5) 0 0 0 (0, 6, 2)) (0.871, 0.804, 0.675, 1)
         (projr (FindTextureSlot ''stone'' s)) box3Material @ [Draw BoxMesh]
       @ object_calls (model_matrix g (2, 1, 2.5) 0 0 0 (0, 8, 2)) (0.871, 0.804, 0.675, 1)
         (projr (FindTextureSlot ''stone'' s)) box4Material @ [Draw BoxMesh]
       @ object_calls (model_matrix g (1.75, 2, 2.3) (- 90) 0 0 (0, 9.3, 2)) (0.871, 0.804, 0.675, 1)
         (projr (FindTextureSlot ''stone'' s)) prismMaterial @ [Draw PrismMesh]) s)"
proof -
  have def: "\<And>tg. \<not> isl (FindTextureSlot tg s)"
    using wf by (rule FindTextureSlot_defined)
  have ne: "m_objectMaterials s \<noteq> []" using mats by simp
  note mat = authored_materials [OF mats, THEN object_calls_material]
  show ?thesis
    unfolding RenderScene_def
    by (simp only: bind_object nn def ne emit_fields FindTextureSlot_emit FindMaterial_emit
        not_False_eq_True sequence_draw sequence.simps(1) emit_emit mat append_assoc)
qed

section \<open>The claims\<close>

text \<open>
  Claim C1. On a material list that is not empty, \<open>SetShaderMaterial\<close> with a tag that
  matches no material is said to write none of the five material parameters. The code
  writes all five: \<open>FindMaterial\<close> returns true whenever the list is not empty, so the
  values written are those of the local \<open>material\<close>, which nothing has initialised. Here
  on the eight authored materials: for the tag \<open>nonexistent\<close> the five calls carry the
  content of the uninitialised local; for the tag \<open>bottomPlane\<close> they carry the fields of
  that material, as the claim says.
\<close>

theorem SetShaderMaterial_unmatched_tag_writes_uninitialised:
  "SetShaderMaterial stack_garbage ''nonexistent'' (DefineObjectMaterials loaded_scene) =
     Inr (emit
       [setVec3Value ''material.ambientColor'' (ambientColor stack_garbage),
        setFloatValue ''material.ambientStrength'' (ambientStrength stack_garbage),
        setVec3Value ''material.diffuseColor'' (diffuseColor stack_garbage),
        setVec3Value ''material.specularColor'' (specularColor stack_garbage),
        setFloatValue ''material.shininess'' (shininess stack_garbage)]
       (DefineObjectMaterials loaded_scene))
   \<and> SetShaderMaterial stack_garbage ''bottomPlane'' (DefineObjectMaterials loaded_scene) =
     Inr (emit
       [setVec3Value ''material.ambientColor'' (ambientColor bottomPlaneMaterial),
        setFloatValue ''material.ambientStrength'' (ambientStrength bottomPlaneMaterial),
        setVec3Value ''material.diffuseColor'' (diffuseColor bottomPlaneMaterial),
        setVec3Value ''material.specularColor'' (specularColor bottomPlaneMaterial),
        setFloatValue ''material.shininess'' (shininess bottomPlaneMaterial)]
       (DefineObjectMaterials loaded_scene))"
  by (simp add: SetShaderMaterial_def FindMaterial_def FindMaterial_while.simps
      DefineObjectMaterials_def loaded_scene_def
      box1Material_def box2Material_def box3Material_def box4Material_def prismMaterial_def
      torusMaterial_def topPlaneMaterial_def bottomPlaneMaterial_def)

text \<open>
  Claim C2. On a table of sixteen entries that are all occupied, the next call of
  \<open>CreateGLTexture\<close> with a readable three-channel image does not return a failure: it
  reaches the assignment to \<open>m_textureIDs[16]\<close>, one past the end of the table.
\<close>

theorem CreateGLTexture_full_table_out_of_bounds:
  "CreateGLTexture (Some rgb_image) 17 ''extra.jpg'' ''extra'' full_scene =
     Inl (OutOfBoundsWrite 16)"
  by (simp add: CreateGLTexture_def full_scene_def rgb_image_def in_bounds_def Let_def)

text \<open>
  Claim C3. With a shader manager present, \<open>SetTransformations\<close> makes one call, which
  writes under \<open>model\<close> the product translation * rotationX * rotationY * rotationZ * scale,
  multiplied from the left in this order, whatever the GLM operations compute. For scale
  (2,1,1), no rotation and no translation, the matrix written is the scale matrix of
  (2,1,1) alone, as soon as GLM's translation by zero and rotations by zero degrees are
  the identity matrix and the identity is a left unit of its product.
\<close>

theorem SetTransformations_composition_order:
  assumes "m_pShaderManager s \<noteq> NULL"
  shows "SetTransformations g scaleXYZ rx ry rz positionXYZ s =
           Inr (emit [setMat4Value ''model''
             (glm_mul g
               (glm_mul g
                 (glm_mul g
                   (glm_mul g (glm_translate g positionXYZ)
                      (glm_rotate g (glm_radians g rx) (1, 0, 0)))
                   (glm_rotate g (glm_radians g ry) (0, 1, 0)))
                 (glm_rotate g (glm_radians g rz) (0, 0, 1)))
               (glm_scale g scaleXYZ))] s)
       \<and> (glm_translate g (0, 0, 0) = mat4_identity
            \<and> glm_rotate g (glm_radians g 0) (1, 0, 0) = mat4_identity
            \<and> glm_rotate g (glm_radians g 0) (0, 1, 0) = mat4_identity
            \<and> glm_rotate g (glm_radians g 0) (0, 0, 1) = mat4_identity
            \<and> (\<forall>m. glm_mul g mat4_identity m = m)
          \<longrightarrow> SetTransformations g (2, 1, 1) 0 0 0 (0, 0, 0) s =
                Inr (emit [setMat4Value ''model'' (glm_scale g (2, 1, 1))] s))"
proof (intro conjI impI)
  show "SetTransformations g scaleXYZ rx ry rz positionXYZ s =
           Inr (emit [setMat4Value ''model''
             (glm_mul g
               (glm_mul g
                 (glm_mul g
                   (glm_mul g (glm_translate g positionXYZ)
                      (glm_rotate g (glm_radians g rx) (1, 0, 0)))
                   (glm_rotate g (glm_radians g ry) (0, 1, 0)))
                 (glm_rotate g (glm_radians g rz) (0, 0, 1)))
               (glm_scale g scaleXYZ))] s)"
    using assms by (simp add: SetTransformations_def g_ModelName_def Let_def)
next
  assume laws: "glm_translate g (0, 0, 0) = mat4_identity
            \<and> glm_rotate g (glm_radians g 0) (1, 0, 0) = mat4_identity
            \<and> glm_rotate g (glm_radians g 0) (0, 1, 0) = mat4_identity
            \<and> glm_rotate g (glm_radians g 0) (0, 0, 1) = mat4_identity
            \<and> (\<forall>m. glm_mul g mat4_identity m = m)"
  then have unit: "\<And>m. glm_mul g mat4_identity m = m" by blast
  have "model_matrix g (2, 1, 1) 0 0 0 (0, 0, 0) = glm_scale g (2, 1, 1)"
    using laws by (simp only: model_matrix_def unit)
  then show "SetTransformations g (2, 1, 1) 0 0 0 (0, 0, 0) s =
                Inr (emit [setMat4Value ''model'' (glm_scale g (2, 1, 1))] s)"
    using assms by (simp add: SetTransformations_model_matrix)
qed

text \<open>With exact arithmetic the matrix written for scale (2,1,1) is diag(2,1,1,1).\<close>

theorem SetTransformations_composition_order_witness:
  "m_pShaderManager loaded_scene \<noteq> NULL
   \<and> SetTransformations glm_exact (2, 1, 1) 0 0 0 (0, 0, 0) loaded_scene =
       Inr (emit [setMat4Value ''model'' ((2, 0, 0, 0), (0, 1, 0, 0), (0, 0, 1, 0), (0, 0, 0, 1))]
              loaded_scene)"
proof -
  have nn: "m_pShaderManager loaded_scene \<noteq> NULL"
    by (simp add: loaded_scene_def)
  have laws: "glm_translate glm_exact (0, 0, 0) = mat4_identity
            \<and> glm_rotate glm_exact (glm_radians glm_exact 0) (1, 0, 0) = mat4_identity
            \<and> glm_rotate glm_exact (glm_radians glm_exact 0) (0, 1, 0) = mat4_identity
            \<and> glm_rotate glm_exact (glm_radians glm_exact 0) (0, 0, 1) = mat4_identity
            \<and> (\<forall>m. glm_mul glm_exact mat4_identity m = m)"
    by (auto simp add: glm_exact_def exact_translate_def exact_rotate_def exact_radians_def
        exact_mul_def mat4_mul_vec4_def mat4_identity_def split: prod.splits)
  have sc: "glm_scale glm_exact (2, 1, 1) = ((2, 0, 0, 0), (0, 1, 0, 0), (0, 0, 1, 0), (0, 0, 0, 1))"
    by (simp add: glm_exact_def exact_scale_def)
  have "SetTransformations glm_exact (2, 1, 1) 0 0 0 (0, 0, 0) loaded_scene =
          Inr (emit [setMat4Value ''model'' (glm_scale glm_exact (2, 1, 1))] loaded_scene)"
    using SetTransformations_composition_order [OF nn, of glm_exact] laws by blast
  with nn sc show ?thesis by simp
qed

text \<open>
  Claim C4, as the code has it. With a shader manager present, a texture counter within
  the table and the materials of \<open>DefineObjectMaterials\<close>, \<open>RenderScene\<close> makes exactly eight
  draw calls, in the authored order (plane, plane, torus, four boxes, prism). The calls
  between one draw and the next are exactly those of \<open>object_calls\<close>: one write of the
  model matrix, then the two calls of \<open>SetShaderColor\<close> and the two calls of
  \<open>SetShaderTexture\<close> (both are made for every object, the colour first), then the five
  parameters of the object's material.
\<close>

theorem RenderScene_draws_authored_objects:
  assumes "m_pShaderManager s \<noteq> NULL"
    and "m_loadedTextures s \<le> int (length (m_textureIDs s))"
    and "m_objectMaterials s = []"
  shows "\<exists>s' ground sky bush stone.
      RenderScene g uninit (DefineObjectMaterials s) = Inr s'
    \<and> FindTextureSlot ''ground'' s = Inr ground \<and> FindTextureSlot ''sky'' s = Inr sky
    \<and> FindTextureSlot ''bush'' s = Inr bush \<and> FindTextureSlot ''stone'' s = Inr stone
    \<and> draw_segments [] (drop (length (calls s)) (calls s')) =
       [(object_calls (model_matrix g (20, 1, 10) 0 0 0 (0, 0, 0)) (1, 1, 1, 1)
           ground bottomPlaneMaterial, PlaneMesh),
        (object_calls (model_matrix g (20, 1, 10) 90 0 0 (0, 9, - 10)) (1, 1, 1, 1)
           sky topPlaneMaterial, PlaneMesh),
        (object_calls (model_matrix g (10, 6, 2) 90 0 0 (0, 0, 2)) (0.243, 0.651, 0.286, 1)
           bush torusMaterial, TorusMesh),
        (object_calls (model_matrix g (7, 4, 3) 0 0 0 (0, 1, 2.5)) (0.871, 0.804, 0.675, 1)
           stone box1Material, BoxMesh),
        (object_calls (model_matrix g (5, 2.5, 3) 0 0 0 (0, 3.5, 2.5)) (0.871, 0.804, 0.675, 1)
           stone box2Material, BoxMesh),
        (object_calls (model_matrix g (3.5, 3, 2.5) 0 0 0 (0, 6, 2)) (0.871, 0.804, 0.675, 1)
           stone box3Material, BoxMesh),
        (object_calls (model_matrix g (2, 1, 2.5) 0 0 0 (0, 8, 2)) (0.871, 0.804, 0.675, 1)
           stone box4Material, BoxMesh),
        (object_calls (model_matrix g (1.75, 2, 2.3) (- 90) 0 0 (0, 9.3, 2))
           (0.871, 0.804, 0.675, 1) stone prismMaterial, PrismMesh)]"
proof -
  let ?s0 = "DefineObjectMaterials s"
  have nn: "m_pShaderManager ?s0 \<noteq> NULL"
    using assms(1) by (simp add: DefineObjectMaterials_def)
  have wf: "m_loadedTextures ?s0 \<le> int (length (m_textureIDs ?s0))"
    using assms(2) by (simp add: DefineObjectMaterials_def)
  have mats: "m_objectMaterials ?s0 =
      [box1Material, box2Material, box3Material, box4Material, prismMaterial,
       torusMaterial, topPlaneMaterial, bottomPlaneMaterial]"
    using assms(3) by (simp add: DefineObjectMaterials_def)
  have slot: "\<And>tg. FindTextureSlot tg s = Inr (projr (FindTextureSlot tg s))"
    using FindTextureSlot_defined [OF assms(2)] by simp
  have log: "calls ?s0 = calls s"
    by (simp add: DefineObjectMaterials_def)
  note run = RenderScene_calls [OF nn wf mats, of g uninit]
  show ?thesis
    apply (rule exI [of _ "projr (RenderScene g uninit ?s0)"])
    apply (rule exI [of _ "projr (FindTextureSlot ''ground'' s)"])
    apply (rule exI [of _ "projr (FindTextureSlot ''sky'' s)"])
    apply (rule exI [of _ "projr (FindTextureSlot ''bush'' s)"])
    apply (rule exI [of _ "projr (FindTextureSlot ''stone'' s)"])
    apply (intro conjI)
         apply (simp add: run)
        apply (rule slot)
       apply (rule slot)
      apply (rule slot)
     apply (rule slot)
    apply (simp only: run sum.sel emit_fields log append_eq_conv_conj drop_append
        FindTextureSlot_DefineObjectMaterials)
    apply (simp add: draw_segments_object)
    done
qed

theorem RenderScene_draws_authored_objects_witness:
  "m_pShaderManager loaded_scene \<noteq> NULL
   \<and> m_loadedTextures loaded_scene \<le> int (length (m_textureIDs loaded_scene))
   \<and> m_objectMaterials loaded_scene = []
   \<and> (\<exists>s'. RenderScene glm_exact garbage_locals (DefineObjectMaterials loaded_scene) = Inr s'
         \<and> map snd (draw_segments [] (calls s')) =
             [PlaneMesh, PlaneMesh, TorusMesh, BoxMesh, BoxMesh, BoxMesh, BoxMesh, PrismMesh]
         \<and> map (length \<circ> fst) (draw_segments [] (calls s')) = [10, 10, 10, 10, 10, 10, 10, 10])"
proof -
  have nn: "m_pShaderManager loaded_scene \<noteq> NULL"
    by (simp add: loaded_scene_def)
  have wf: "m_loadedTextures loaded_scene \<le> int (length (m_textureIDs loaded_scene))"
    by (simp add: loaded_scene_def)
  have mats: "m_objectMaterials loaded_scene = []"
    by (simp add: loaded_scene_def)
  have log: "calls loaded_scene = []"
    by (simp add: loaded_scene_def)
  from RenderScene_draws_authored_objects [OF nn wf mats, of glm_exact garbage_locals]
  obtain s' ground sky bush stone where
    run: "RenderScene glm_exact garbage_locals (DefineObjectMaterials loaded_scene) = Inr s'"
    and segs: "draw_segments [] (drop (length (calls loaded_scene)) (calls s')) =
       [(object_calls (model_matrix glm_exact (20, 1, 10) 0 0 0 (0, 0, 0)) (1, 1, 1, 1)
           ground bottomPlaneMaterial, PlaneMesh),
        (object_calls (model_matrix glm_exact (20, 1, 10) 90 0 0 (0, 9, - 10)) (1, 1, 1, 1)
           sky topPlaneMaterial, PlaneMesh),
        (object_calls (model_matrix glm_exact (10, 6, 2) 90 0 0 (0, 0, 2))
           (0.243, 0.651, 0.286, 1) bush torusMaterial, TorusMesh),
        (object_calls (model_matrix glm_exact (7, 4, 3) 0 0 0 (0, 1, 2.5))
           (0.871, 0.804, 0.675, 1) stone box1Material, BoxMesh),
        (object_calls (model_matrix glm_exact (5, 2.5, 3) 0 0 0 (0, 3.5, 2.5))
           (0.871, 0.804, 0.675, 1) stone box2Material, BoxMesh),
        (object_calls (model_matrix glm_exact (3.5, 3, 2.5) 0 0 0 (0, 6, 2))
           (0.871, 0.804, 0.675, 1) stone box3Material, BoxMesh),
        (object_calls (model_matrix glm_exact (2, 1, 2.5) 0 0 0 (0, 8, 2))
           (0.871, 0.804, 0.675, 1) stone box4Material, BoxMesh),
        (object_calls (model_matrix glm_exact (1.75, 2, 2.3) (- 90) 0 0 (0, 9.3, 2))
           (0.871, 0.804, 0.675, 1) stone prismMaterial, PrismMesh)]"
    by blast
  have len: "\<And>M c sl m. length (object_calls M c sl m) = 10"
    by (simp add: object_calls_def material_calls_def)
  from segs have segs': "draw_segments [] (calls s') =
       [(object_calls (model_matrix glm_exact (20, 1, 10) 0 0 0 (0, 0, 0)) (1, 1, 1, 1)
           ground bottomPlaneMaterial, PlaneMesh),
        (object_calls (model_matrix glm_exact (20, 1, 10) 90 0 0 (0, 9, - 10)) (1, 1, 1, 1)
           sky topPlaneMaterial, PlaneMesh),
        (object_calls (model_matrix glm_exact (10, 6, 2) 90 0 0 (0, 0, 2))
           (0.243, 0.651, 0.286, 1) bush torusMaterial, TorusMesh),
        (object_calls (model_matrix glm_exact (7, 4, 3) 0 0 0 (0, 1, 2.5))
           (0.871, 0.804, 0.675, 1) stone box1Material, BoxMesh),
        (object_calls (model_matrix glm_exact (5, 2.5, 3) 0 0 0 (0, 3.5, 2.5))
           (0.871, 0.804, 0.675, 1) stone box2Material, BoxMesh),
        (object_calls (model_matrix glm_exact (3.5, 3, 2.5) 0 0 0 (0, 6, 2))
           (0.871, 0.804, 0.675, 1) stone box3Material, BoxMesh),
        (object_calls (model_matrix glm_exact (2, 1, 2.5) 0 0 0 (0, 8, 2))
           (0.871, 0.804, 0.675, 1) stone box4Material, BoxMesh),
        (object_calls (model_matrix glm_exact (1.75, 2, 2.3) (- 90) 0 0 (0, 9.3, 2))
           (0.871, 0.804, 0.675, 1) stone prismMaterial, PrismMesh)]"
    by (simp only: log list.size drop_0)
  have meshes: "map snd (draw_segments [] (calls s')) =
             [PlaneMesh, PlaneMesh, TorusMesh, BoxMesh, BoxMesh, BoxMesh, BoxMesh, PrismMesh]"
    by (simp only: segs' list.map snd_conv)
  have lens: "map (length \<circ> fst) (draw_segments [] (calls s')) =
             [10, 10, 10, 10, 10, 10, 10, 10]"
    by (simp only: segs' list.map fst_conv comp_apply len)
  from run meshes lens
  have "\<exists>s'. RenderScene glm_exact garbage_locals (DefineObjectMaterials loaded_scene) = Inr s'
         \<and> map snd (draw_segments [] (calls s')) =
             [PlaneMesh, PlaneMesh, TorusMesh, BoxMesh, BoxMesh, BoxMesh, BoxMesh, PrismMesh]
         \<and> map (length \<circ> fst) (draw_segments [] (calls s')) = [10, 10, 10, 10, 10, 10, 10, 10]"
    by (intro exI [of _ s'] conjI)
  with nn wf mats show ?thesis by (intro conjI)
qed

text \<open>
  Claim C4 as stated has exactly one appearance write before each draw, either the colour
  or the texture and not both. In the authored scene each of the eight draws is preceded
  by one write of the colour and one write of the sampler.
\<close>

theorem RenderScene_color_and_texture_counterexample:
  "\<not> isl (RenderScene glm_exact garbage_locals (DefineObjectMaterials loaded_scene))
   \<and> map appearance_writes
        (draw_segments []
           (calls (projr (RenderScene glm_exact garbage_locals (DefineObjectMaterials loaded_scene))))) =
       [(1, 1), (1, 1), (1, 1), (1, 1), (1, 1), (1, 1), (1, 1), (1, 1)]"
proof -
  let ?s0 = "DefineObjectMaterials loaded_scene"
  have nn: "m_pShaderManager ?s0 \<noteq> NULL"
    by (simp add: DefineObjectMaterials_def loaded_scene_def)
  have wf: "m_loadedTextures ?s0 \<le> int (length (m_textureIDs ?s0))"
    by (simp add: DefineObjectMaterials_def loaded_scene_def)
  have mats: "m_objectMaterials ?s0 =
      [box1Material, box2Material, box3Material, box4Material, prismMaterial,
       torusMaterial, topPlaneMaterial, bottomPlaneMaterial]"
    by (simp add: DefineObjectMaterials_def loaded_scene_def)
  have log: "calls ?s0 = []"
    by (simp add: DefineObjectMaterials_def loaded_scene_def)
  have both: "\<And>M c sl m k. appearance_writes (object_calls M c sl m, k) = (1, 1)"
    by (simp add: appearance_writes_def writes_to_def object_calls_def material_calls_def)
  note run = RenderScene_calls [OF nn wf mats, of glm_exact garbage_locals]
  show ?thesis
    by (simp only: run sum.sel sum.disc emit_fields log append_Nil append_Cons
        draw_segments_object draw_segments.simps(1) list.map both not_False_eq_True simp_thms)
qed

text \<open>
  Claim C5. With a shader manager present and a texture counter within the table,
  \<open>SetShaderTexture\<close> makes exactly two calls: it sets \<open>bUseTexture\<close> to 1 (true) and
  writes under \<open>objectTexture\<close> the slot that \<open>FindTextureSlot\<close> returns for the tag. That
  slot is \<open>k\<close> when slot \<open>k\<close> is the first occupied slot holding the tag, and the
  sentinel -1 when no occupied slot holds it.
\<close>

theorem SetShaderTexture_writes_lookup_slot:
  assumes "m_pShaderManager s \<noteq> NULL"
    and "m_loadedTextures s \<le> int (length (m_textureIDs s))"
  shows "\<exists>slot. FindTextureSlot tg s = Inr slot
          \<and> SetShaderTexture tg s =
              Inr (emit [setIntValue ''bUseTexture'' 1,
                         setSampler2DValue ''objectTexture'' slot] s)
          \<and> parameter_store (calls s @ [setIntValue ''bUseTexture'' 1,
                                         setSampler2DValue ''objectTexture'' slot]) =
              (parameter_store (calls s))
                (''bUseTexture'' \<mapsto> IntParam 1, ''objectTexture'' \<mapsto> Sampler2DParam slot)
          \<and> (\<forall>k. 0 \<le> k \<and> k < m_loadedTextures s \<and> tag (m_textureIDs s ! nat k) = tg
                  \<and> (\<forall>j. 0 \<le> j \<and> j < k \<longrightarrow> tag (m_textureIDs s ! nat j) \<noteq> tg)
                \<longrightarrow> slot = k)
          \<and> ((\<forall>j. 0 \<le> j \<and> j < m_loadedTextures s \<longrightarrow> tag (m_textureIDs s ! nat j) \<noteq> tg)
                \<longrightarrow> slot = - 1)"
proof -
  obtain slot where slot: "FindTextureSlot tg s = Inr slot"
    using FindTextureSlot_total [OF assms(2)] by blast
  have run: "SetShaderTexture tg s =
      Inr (emit [setIntValue ''bUseTexture'' 1, setSampler2DValue ''objectTexture'' slot] s)"
    using assms(1) slot
    by (simp add: SetShaderTexture_def g_UseTextureName_def g_TextureValueName_def emit_emit)
  have store: "parameter_store (calls s @ [setIntValue ''bUseTexture'' 1,
                                         setSampler2DValue ''objectTexture'' slot]) =
              (parameter_store (calls s))
                (''bUseTexture'' \<mapsto> IntParam 1, ''objectTexture'' \<mapsto> Sampler2DParam slot)"
    by (simp add: parameter_store_append)
  have found: "\<forall>k. 0 \<le> k \<and> k < m_loadedTextures s \<and> tag (m_textureIDs s ! nat k) = tg
                  \<and> (\<forall>j. 0 \<le> j \<and> j < k \<longrightarrow> tag (m_textureIDs s ! nat j) \<noteq> tg)
                \<longrightarrow> slot = k"
  proof (intro allI impI)
    fix k
    assume k: "0 \<le> k \<and> k < m_loadedTextures s \<and> tag (m_textureIDs s ! nat k) = tg
                  \<and> (\<forall>j. 0 \<le> j \<and> j < k \<longrightarrow> tag (m_textureIDs s ! nat j) \<noteq> tg)"
    then have "FindTextureSlot tg s = Inr k"
      using assms(2) by (intro FindTextureSlot_found) simp_all
    with slot show "slot = k" by simp
  qed
  have absent: "(\<forall>j. 0 \<le> j \<and> j < m_loadedTextures s \<longrightarrow> tag (m_textureIDs s ! nat j) \<noteq> tg)
                \<longrightarrow> slot = - 1"
  proof
    assume "\<forall>j. 0 \<le> j \<and> j < m_loadedTextures s \<longrightarrow> tag (m_textureIDs s ! nat j) \<noteq> tg"
    then have "FindTextureSlot tg s = Inr (- 1)"
      using assms(2) by (intro FindTextureSlot_absent)
    with slot show "slot = - 1" by simp
  qed
  from slot run store found absent show ?thesis by blast
qed

theorem SetShaderTexture_writes_lookup_slot_witness:
  "m_pShaderManager loaded_scene \<noteq> NULL
   \<and> m_loadedTextures loaded_scene \<le> int (length (m_textureIDs loaded_scene))
   \<and> tag (m_textureIDs loaded_scene ! nat 2) = ''ground''
   \<and> SetShaderTexture ''ground'' loaded_scene =
       Inr (emit [setIntValue ''bUseTexture'' 1, setSampler2DValue ''objectTexture'' 2] loaded_scene)
   \<and> SetShaderTexture ''moss'' loaded_scene =
       Inr (emit [setIntValue ''bUseTexture'' 1, setSampler2DValue ''objectTexture'' (- 1)]
              loaded_scene)"
proof -
  have nn: "m_pShaderManager loaded_scene \<noteq> NULL"
    by (simp add: loaded_scene_def)
  have wf: "m_loadedTextures loaded_scene \<le> int (length (m_textureIDs loaded_scene))"
    by (simp add: loaded_scene_def)
  have at2: "tag (m_textureIDs loaded_scene ! nat 2) = ''ground''"
    by (simp add: loaded_scene_def)
  have first: "\<forall>j. 0 \<le> j \<and> j < 2 \<longrightarrow> tag (m_textureIDs loaded_scene ! nat j) \<noteq> ''ground''"
  proof (intro allI impI)
    fix j :: int
    assume "0 \<le> j \<and> j < 2"
    then have "j = 0 \<or> j = 1" by arith
    then show "tag (m_textureIDs loaded_scene ! nat j) \<noteq> ''ground''"
      by (auto simp add: loaded_scene_def)
  qed
  have none: "\<forall>j. 0 \<le> j \<and> j < m_loadedTextures loaded_scene
                \<longrightarrow> tag (m_textureIDs loaded_scene ! nat j) \<noteq> ''moss''"
  proof (intro allI impI)
    fix j :: int
    assume "0 \<le> j \<and> j < m_loadedTextures loaded_scene"
    then have "j = 0 \<or> j = 1 \<or> j = 2 \<or> j = 3"
      by (intro int_below_4) (simp add: loaded_scene_def)
    then show "tag (m_textureIDs loaded_scene ! nat j) \<noteq> ''moss''"
      by (auto simp add: loaded_scene_def)
  qed
  obtain slot where g:
    "SetShaderTexture ''ground'' loaded_scene =
       Inr (emit [setIntValue ''bUseTexture'' 1, setSampler2DValue ''objectTexture'' slot]
              loaded_scene)"
    "\<forall>k. 0 \<le> k \<and> k < m_loadedTextures loaded_scene
          \<and> tag (m_textureIDs loaded_scene ! nat k) = ''ground''
          \<and> (\<forall>j. 0 \<le> j \<and> j < k \<longrightarrow> tag (m_textureIDs loaded_scene ! nat j) \<noteq> ''ground'')
        \<longrightarrow> slot = k"
    using SetShaderTexture_writes_lookup_slot [OF nn wf, of "''ground''"] by blast
  have "slot = 2"
    using g(2) at2 first by (simp add: loaded_scene_def)
  with g(1) have ground: "SetShaderTexture ''ground'' loaded_scene =
       Inr (emit [setIntValue ''bUseTexture'' 1, setSampler2DValue ''objectTexture'' 2] loaded_scene)"
    by simp
  obtain slot' where m:
    "SetShaderTexture ''moss'' loaded_scene =
       Inr (emit [setIntValue ''bUseTexture'' 1, setSampler2DValue ''objectTexture'' slot']
              loaded_scene)"
    "(\<forall>j. 0 \<le> j \<and> j < m_loadedTextures loaded_scene
          \<longrightarrow> tag (m_textureIDs loaded_scene ! nat j) \<noteq> ''moss'') \<longrightarrow> slot' = - 1"
    using SetShaderTexture_writes_lookup_slot [OF nn wf, of "''moss''"] by blast
  from m(2) none have "slot' = - 1" by blast
  with m(1) ground nn wf at2 show ?thesis by simp
qed

text \<open>
  Claim C6. A call of \<open>CreateGLTexture\<close> with a three- or four-channel image and a free
  slot returns true. Whenever it returns true, the number of loaded textures has grown by
  exactly one, the new entry stands in the slot the old counter named and the occupied
  slots before it are unchanged; \<open>FindTextureSlot\<close> on the tag then returns the first slot
  holding the tag, which is the new slot when the tag was not in the table before. From a
  table with no occupied slot, after any run of calls of \<open>CreateGLTexture\<close>, a tag that
  none of the calls was given is not found: \<open>FindTextureSlot\<close> returns -1.
\<close>

theorem CreateGLTexture_registers_tag:
  "((\<exists>im. img = Some im \<and> (colorChannels im = 3 \<or> colorChannels im = 4))
       \<and> in_bounds s (m_loadedTextures s)
      \<longrightarrow> (\<exists>s'. CreateGLTexture img textureID filename tg s = Inr (True, s')))
   \<and> (CreateGLTexture img textureID filename tg s = Inr (True, s') \<longrightarrow>
        m_loadedTextures s' = m_loadedTextures s + 1
        \<and> m_textureIDs s' ! nat (m_loadedTextures s) = \<lparr>ID = textureID, tag = tg\<rparr>
        \<and> (\<forall>j. 0 \<le> j \<and> j < m_loadedTextures s
               \<longrightarrow> m_textureIDs s' ! nat j = m_textureIDs s ! nat j)
        \<and> (\<exists>slot. FindTextureSlot tg s' = Inr slot
              \<and> 0 \<le> slot \<and> slot \<le> m_loadedTextures s
              \<and> tag (m_textureIDs s' ! nat slot) = tg
              \<and> (\<forall>j. 0 \<le> j \<and> j < slot \<longrightarrow> tag (m_textureIDs s' ! nat j) \<noteq> tg)
              \<and> ((\<forall>j. 0 \<le> j \<and> j < m_loadedTextures s
                      \<longrightarrow> tag (m_textureIDs s ! nat j) \<noteq> tg)
                   \<longrightarrow> slot = m_loadedTextures s)))
   \<and> (m_loadedTextures s0 = 0 \<and> CreateGLTexture_calls loads s0 = Inr s1
        \<and> tg' \<notin> set (map (\<lambda>(img, textureID, filename, t). t) loads)
      \<longrightarrow> FindTextureSlot tg' s1 = Inr (- 1))"
proof (intro conjI impI)
  assume "(\<exists>im. img = Some im \<and> (colorChannels im = 3 \<or> colorChannels im = 4))
       \<and> in_bounds s (m_loadedTextures s)"
  then show "\<exists>s'. CreateGLTexture img textureID filename tg s = Inr (True, s')"
    using CreateGLTexture_valid_image by blast
next
  assume ok: "CreateGLTexture img textureID filename tg s = Inr (True, s')"
  note facts = CreateGLTexture_True [OF ok]
  let ?n = "m_loadedTextures s"
  show count: "m_loadedTextures s' = ?n + 1" by (rule facts(2))
  show entry: "m_textureIDs s' ! nat ?n = \<lparr>ID = textureID, tag = tg\<rparr>"
    using facts by (simp add: in_bounds_nat)
  show kept: "\<forall>j. 0 \<le> j \<and> j < ?n \<longrightarrow> m_textureIDs s' ! nat j = m_textureIDs s ! nat j"
  proof (intro allI impI)
    fix j assume "0 \<le> j \<and> j < ?n"
    then have "nat j \<noteq> nat ?n" by linarith
    then show "m_textureIDs s' ! nat j = m_textureIDs s ! nat j"
      using facts(3) by simp
  qed
  have wf': "m_loadedTextures s' \<le> int (length (m_textureIDs s'))"
    using facts by (simp add: in_bounds_def)
  have n0: "0 \<le> ?n" using facts(1) by (simp add: in_bounds_def)
  from FindTextureSlot_cases [OF wf', of tg]
  show "\<exists>slot. FindTextureSlot tg s' = Inr slot
              \<and> 0 \<le> slot \<and> slot \<le> ?n
              \<and> tag (m_textureIDs s' ! nat slot) = tg
              \<and> (\<forall>j. 0 \<le> j \<and> j < slot \<longrightarrow> tag (m_textureIDs s' ! nat j) \<noteq> tg)
              \<and> ((\<forall>j. 0 \<le> j \<and> j < ?n \<longrightarrow> tag (m_textureIDs s ! nat j) \<noteq> tg)
                   \<longrightarrow> slot = ?n)"
  proof (elim disjE conjE exE)
    assume "\<forall>j. 0 \<le> j \<and> j < m_loadedTextures s' \<longrightarrow> tag (m_textureIDs s' ! nat j) \<noteq> tg"
    then have "tag (m_textureIDs s' ! nat ?n) \<noteq> tg"
      using count n0 by simp
    with entry show ?thesis by simp
  next
    fix k
    assume k: "FindTextureSlot tg s' = Inr k" "0 \<le> k" "k < m_loadedTextures s'"
      "tag (m_textureIDs s' ! nat k) = tg"
      "\<forall>j. 0 \<le> j \<and> j < k \<longrightarrow> tag (m_textureIDs s' ! nat j) \<noteq> tg"
    have le: "k \<le> ?n" using k(3) count by simp
    have "(\<forall>j. 0 \<le> j \<and> j < ?n \<longrightarrow> tag (m_textureIDs s ! nat j) \<noteq> tg) \<longrightarrow> k = ?n"
    proof
      assume none: "\<forall>j. 0 \<le> j \<and> j < ?n \<longrightarrow> tag (m_textureIDs s ! nat j) \<noteq> tg"
      show "k = ?n"
      proof (rule ccontr)
        assume "k \<noteq> ?n"
        with le k(2) have lt: "0 \<le> k \<and> k < ?n" by simp
        with kept have "m_textureIDs s' ! nat k = m_textureIDs s ! nat k" by blast
        with none lt k(4) show False by auto
      qed
    qed
    with k le show ?thesis by blast
  qed
next
  assume h: "m_loadedTextures s0 = 0 \<and> CreateGLTexture_calls loads s0 = Inr s1
        \<and> tg' \<notin> set (map (\<lambda>(img, textureID, filename, t). t) loads)"
  then have start: "tags_within {} s0" by (simp add: tags_within_def)
  from h have run: "CreateGLTexture_calls loads s0 = Inr s1" by blast
  from start run
  have tw: "tags_within ({} \<union> set (map (\<lambda>(img, textureID, filename, t). t) loads)) s1"
    by (rule tags_within_CreateGLTexture_calls)
  then have wf: "m_loadedTextures s1 \<le> int (length (m_textureIDs s1))"
    by (simp add: tags_within_def)
  have "\<forall>j. 0 \<le> j \<and> j < m_loadedTextures s1 \<longrightarrow> tag (m_textureIDs s1 ! nat j) \<noteq> tg'"
    using tw h unfolding tags_within_def by auto
  with wf show "FindTextureSlot tg' s1 = Inr (- 1)"
    by (rule FindTextureSlot_absent)
qed

theorem CreateGLTexture_registers_tag_witness:
  "in_bounds loaded_scene (m_loadedTextures loaded_scene)
   \<and> m_loadedTextures loaded_scene = 4
   \<and> (\<exists>s'. CreateGLTexture (Some rgb_image) 5 ''moss.jpg'' ''moss'' loaded_scene = Inr (True, s')
          \<and> m_loadedTextures s' = 5
          \<and> m_textureIDs s' ! 4 = \<lparr>ID = 5, tag = ''moss''\<rparr>
          \<and> FindTextureSlot ''moss'' s' = Inr 4)
   \<and> m_loadedTextures empty_scene = 0
   \<and> \<not> isl (CreateGLTexture_calls
         [(Some rgb_image, 1, ''stone.jpg'', ''stone''), (None, 2, ''bush.jpg'', ''bush'')]
         empty_scene)
   \<and> FindTextureSlot ''sky''
        (projr (CreateGLTexture_calls
           [(Some rgb_image, 1, ''stone.jpg'', ''stone''), (None, 2, ''bush.jpg'', ''bush'')]
           empty_scene)) = Inr (- 1)"
proof -
  let ?loads = "[(Some rgb_image, 1, ''stone.jpg'', ''stone''), (None, 2, ''bush.jpg'', ''bush'')]
      :: (image option \<times> GLuint \<times> string \<times> string) list"
  have ib: "in_bounds loaded_scene (m_loadedTextures loaded_scene)"
    by (simp add: loaded_scene_def in_bounds_def)
  have four: "m_loadedTextures loaded_scene = 4"
    by (simp add: loaded_scene_def)
  have rgb: "\<exists>im. Some rgb_image = Some im \<and> (colorChannels im = 3 \<or> colorChannels im = 4)"
    by (simp add: rgb_image_def)
  have none: "\<forall>j. 0 \<le> j \<and> j < m_loadedTextures loaded_scene
                \<longrightarrow> tag (m_textureIDs loaded_scene ! nat j) \<noteq> ''moss''"
  proof (intro allI impI)
    fix j :: int
    assume "0 \<le> j \<and> j < m_loadedTextures loaded_scene"
    then have "j = 0 \<or> j = 1 \<or> j = 2 \<or> j = 3"
      by (intro int_below_4) (simp add: loaded_scene_def)
    then show "tag (m_textureIDs loaded_scene ! nat j) \<noteq> ''moss''"
      by (auto simp add: loaded_scene_def)
  qed
  obtain s' where ok: "CreateGLTexture (Some rgb_image) 5 ''moss.jpg'' ''moss'' loaded_scene = Inr (True, s')"
    using CreateGLTexture_registers_tag [of "Some rgb_image" loaded_scene 5 "''moss.jpg''" "''moss''"]
      rgb ib by blast
  from CreateGLTexture_registers_tag [of "Some rgb_image" loaded_scene 5 "''moss.jpg''" "''moss''" s']
    ok none four
  have a: "m_loadedTextures s' = 5 \<and> m_textureIDs s' ! 4 = \<lparr>ID = 5, tag = ''moss''\<rparr>
      \<and> FindTextureSlot ''moss'' s' = Inr 4"
    by auto
  have zero: "m_loadedTextures empty_scene = 0"
    by (simp add: empty_scene_def)
  have run: "\<not> isl (CreateGLTexture_calls ?loads empty_scene)"
    by (simp add: CreateGLTexture_def empty_scene_def rgb_image_def in_bounds_def emit_def Let_def)
  then have run': "CreateGLTexture_calls ?loads empty_scene =
      Inr (projr (CreateGLTexture_calls ?loads empty_scene))"
    by simp
  have notin: "''sky'' \<notin> set (map (\<lambda>(img, textureID, filename, t). t) ?loads)"
    by simp
  from CreateGLTexture_registers_tag [of _ _ _ _ _ _ empty_scene ?loads
      "projr (CreateGLTexture_calls ?loads empty_scene)" "''sky''"] zero run' notin
  have b: "FindTextureSlot ''sky'' (projr (CreateGLTexture_calls ?loads empty_scene)) = Inr (- 1)"
    by blast
  from ib four ok a zero run b show ?thesis by blast
qed

text \<open>
  Claim C7. When \<open>stbi_load\<close> returns no buffer, or the image has a channel count other
  than 3 and 4, \<open>CreateGLTexture\<close> returns false, and the number of loaded textures and
  every entry of the table are what they were before the call.
\<close>

theorem CreateGLTexture_failure_leaves_registry:
  assumes "img = None \<or> (\<exists>im. img = Some im \<and> colorChannels im \<noteq> 3 \<and> colorChannels im \<noteq> 4)"
  shows "\<exists>s'. CreateGLTexture img textureID filename tg s = Inr (False, s')
            \<and> m_loadedTextures s' = m_loadedTextures s
            \<and> m_textureIDs s' = m_textureIDs s"
  using assms
  by (auto simp add: CreateGLTexture_def Let_def)

theorem CreateGLTexture_failure_leaves_registry_witness:
  "(\<exists>s'. CreateGLTexture None 5 ''missing.jpg'' ''moss'' loaded_scene = Inr (False, s')
            \<and> m_loadedTextures s' = 4
            \<and> m_textureIDs s' = m_textureIDs loaded_scene)
   \<and> colorChannels grey_image \<noteq> 3 \<and> colorChannels grey_image \<noteq> 4
   \<and> (\<exists>s'. CreateGLTexture (Some grey_image) 5 ''grey.png'' ''moss'' loaded_scene = Inr (False, s')
            \<and> m_loadedTextures s' = 4
            \<and> m_textureIDs s' = m_textureIDs loaded_scene)"
proof -
  have cc: "colorChannels grey_image \<noteq> 3 \<and> colorChannels grey_image \<noteq> 4"
    by (simp add: grey_image_def)
  have four: "m_loadedTextures loaded_scene = 4"
    by (simp add: loaded_scene_def)
  have a: "\<exists>s'. CreateGLTexture None 5 ''missing.jpg'' ''moss'' loaded_scene = Inr (False, s')
            \<and> m_loadedTextures s' = m_loadedTextures loaded_scene
            \<and> m_textureIDs s' = m_textureIDs loaded_scene"
    by (rule CreateGLTexture_failure_leaves_registry) simp
  have b: "\<exists>s'. CreateGLTexture (Some grey_image) 5 ''grey.png'' ''moss'' loaded_scene = Inr (False, s')
            \<and> m_loadedTextures s' = m_loadedTextures loaded_scene
            \<and> m_textureIDs s' = m_textureIDs loaded_scene"
    by (rule CreateGLTexture_failure_leaves_registry) (use cc in simp)
  from a b cc four show ?thesis by simp
qed

text \<open>
  Claim C8. With a shader manager present, \<open>SetShaderColor r g b a\<close> makes exactly two
  calls: it sets the use-texture flag \<open>bUseTexture\<close> to 0 (false) and writes the colour
  \<open>(r, g, b, a)\<close> under \<open>objectColor\<close>; in the parameter store these two keys change and
  nothing else. This holds in every state, so also in one that \<open>SetShaderTexture\<close> has
  just left with the flag set.
\<close>

theorem SetShaderColor_writes_color_and_clears_use_texture:
  assumes "m_pShaderManager s \<noteq> NULL"
  shows "SetShaderColor r g b a s =
           Inr (emit [setIntValue ''bUseTexture'' 0, setVec4Value ''objectColor'' (r, g, b, a)] s)
       \<and> parameter_store (calls s @ [setIntValue ''bUseTexture'' 0,
                                      setVec4Value ''objectColor'' (r, g, b, a)]) =
           (parameter_store (calls s))
             (''bUseTexture'' \<mapsto> IntParam 0, ''objectColor'' \<mapsto> Vec4Param (r, g, b, a))
       \<and> (\<forall>tg s0. SetShaderTexture tg s0 = Inr s \<longrightarrow>
            (\<exists>s'. SetShaderColor r g b a s = Inr s' \<and>
                  parameter_store (calls s') ''bUseTexture'' = Some (IntParam 0)))"
  using assms
  by (simp add: SetShaderColor_def g_UseTextureName_def g_ColorValueName_def
      parameter_store_append)

theorem SetShaderColor_writes_color_and_clears_use_texture_witness:
  "m_pShaderManager
     (emit [setIntValue ''bUseTexture'' 1, setSampler2DValue ''objectTexture'' 0] loaded_scene) \<noteq> NULL
   \<and> SetShaderTexture ''stone'' loaded_scene =
       Inr (emit [setIntValue ''bUseTexture'' 1, setSampler2DValue ''objectTexture'' 0] loaded_scene)
   \<and> parameter_store
        (calls (emit [setIntValue ''bUseTexture'' 1, setSampler2DValue ''objectTexture'' 0]
           loaded_scene)) ''bUseTexture'' = Some (IntParam 1)
   \<and> SetShaderColor 1 0 0 1
        (emit [setIntValue ''bUseTexture'' 1, setSampler2DValue ''objectTexture'' 0] loaded_scene) =
       Inr (emit [setIntValue ''bUseTexture'' 0, setVec4Value ''objectColor'' (1, 0, 0, 1)]
         (emit [setIntValue ''bUseTexture'' 1, setSampler2DValue ''objectTexture'' 0] loaded_scene))
   \<and> parameter_store
        (calls (emit [setIntValue ''bUseTexture'' 1, setSampler2DValue ''objectTexture'' 0]
           loaded_scene) @ [setIntValue ''bUseTexture'' 0, setVec4Value ''objectColor'' (1, 0, 0, 1)])
         ''bUseTexture'' = Some (IntParam 0)"
proof -
  let ?s = "emit [setIntValue ''bUseTexture'' 1, setSampler2DValue ''objectTexture'' 0] loaded_scene"
  have nn: "m_pShaderManager ?s \<noteq> NULL"
    by (simp add: loaded_scene_def)
  have tex: "SetShaderTexture ''stone'' loaded_scene = Inr ?s"
    by (simp add: SetShaderTexture_def loaded_scene_def FindTextureSlot_def
        FindTextureSlot_while.simps in_bounds_def emit_def g_UseTextureName_def
        g_TextureValueName_def)
  have before: "parameter_store (calls ?s) ''bUseTexture'' = Some (IntParam 1)"
    by (simp add: parameter_store_def loaded_scene_def)
  from SetShaderColor_writes_color_and_clears_use_texture [OF nn, of 1 0 0 1] nn tex before
  show ?thesis by simp
qed

text \<open>
  Claim C9. \<open>DestroyGLTextures\<close> is said to delete the texture of every occupied slot and
  to change nothing when called again. On the table with four textures it calls
  \<open>glGenTextures\<close> four times and makes no other call: the names 1 to 4 are overwritten
  by four new names and never deleted, and the counter stays at four. A second call
  generates four more textures and overwrites the names again.
\<close>

theorem DestroyGLTextures_generates_textures:
  "DestroyGLTextures (gl_names 100) loaded_scene = Inr regenerated_scene
   \<and> calls regenerated_scene =
       [glGenTextures 100, glGenTextures 101, glGenTextures 102, glGenTextures 103]
   \<and> m_loadedTextures regenerated_scene = 4
   \<and> DestroyGLTextures (gl_names 200) regenerated_scene =
       Inr (regenerated_scene
         \<lparr>m_textureIDs :=
            [\<lparr>ID = 200, tag = ''stone''\<rparr>, \<lparr>ID = 201, tag = ''bush''\<rparr>,
             \<lparr>ID = 202, tag = ''ground''\<rparr>, \<lparr>ID = 203, tag = ''sky''\<rparr>]
            @ replicate 12 \<lparr>ID = 0, tag = []\<rparr>,
          calls :=
            [glGenTextures 100, glGenTextures 101, glGenTextures 102, glGenTextures 103,
             glGenTextures 200, glGenTextures 201, glGenTextures 202, glGenTextures 203]\<rparr>)"
  by (simp add: DestroyGLTextures_def DestroyGLTextures_for.simps loaded_scene_def
      regenerated_scene_def in_bounds_def emit_def gl_names_def)

text \<open>
  Claim C10. When \<open>m_pShaderManager\<close> is null, \<open>SetTransformations\<close>, \<open>SetShaderColor\<close>,
  \<open>SetShaderTexture\<close> and \<open>SetTextureUVScale\<close> return with the state and the log of calls
  unchanged. \<open>SetShaderMaterial\<close> has no such test: with a material list that is not
  empty it goes on to its writes through the null pointer, and it is a no-op only when
  the list is empty.
\<close>

theorem null_shader_manager_guards:
  assumes "m_pShaderManager s = NULL"
  shows "SetTransformations g scaleXYZ rx ry rz positionXYZ s = Inr s
       \<and> SetShaderColor r gr b a s = Inr s
       \<and> SetShaderTexture tg s = Inr s
       \<and> SetTextureUVScale u v s = Inr s
       \<and> (m_objectMaterials s \<noteq> [] \<longrightarrow> SetShaderMaterial uninit mtg s = Inl NullDereference)
       \<and> (m_objectMaterials s = [] \<longrightarrow> SetShaderMaterial uninit mtg s = Inr s)"
  using assms
  by (simp add: SetTransformations_def SetShaderColor_def SetShaderTexture_def
      SetTextureUVScale_def SetShaderMaterial_def FindMaterial_def Let_def
      split: prod.splits)

theorem null_shader_manager_guards_witness:
  "m_pShaderManager (DefineObjectMaterials (loaded_scene\<lparr>m_pShaderManager := NULL\<rparr>)) = NULL
   \<and> m_objectMaterials (DefineObjectMaterials (loaded_scene\<lparr>m_pShaderManager := NULL\<rparr>)) \<noteq> []
   \<and> SetTransformations glm_exact (2, 1, 1) 0 0 0 (0, 0, 0)
         (DefineObjectMaterials (loaded_scene\<lparr>m_pShaderManager := NULL\<rparr>)) =
       Inr (DefineObjectMaterials (loaded_scene\<lparr>m_pShaderManager := NULL\<rparr>))
   \<and> SetShaderColor 1 0 0 1 (DefineObjectMaterials (loaded_scene\<lparr>m_pShaderManager := NULL\<rparr>)) =
       Inr (DefineObjectMaterials (loaded_scene\<lparr>m_pShaderManager := NULL\<rparr>))
   \<and> SetShaderTexture ''stone'' (DefineObjectMaterials (loaded_scene\<lparr>m_pShaderManager := NULL\<rparr>)) =
       Inr (DefineObjectMaterials (loaded_scene\<lparr>m_pShaderManager := NULL\<rparr>))
   \<and> SetTextureUVScale 2 2 (DefineObjectMaterials (loaded_scene\<lparr>m_pShaderManager := NULL\<rparr>)) =
       Inr (DefineObjectMaterials (loaded_scene\<lparr>m_pShaderManager := NULL\<rparr>))
   \<and> SetShaderMaterial stack_garbage ''box1''
         (DefineObjectMaterials (loaded_scene\<lparr>m_pShaderManager := NULL\<rparr>)) =
       Inl NullDereference"
proof -
  let ?s = "DefineObjectMaterials (loaded_scene\<lparr>m_pShaderManager := NULL\<rparr>)"
  have null: "m_pShaderManager ?s = NULL"
    by (simp add: DefineObjectMaterials_def)
  have ne: "m_objectMaterials ?s \<noteq> []"
    by (simp add: DefineObjectMaterials_def)
  from null_shader_manager_guards [OF null, of glm_exact "(2, 1, 1)" 0 0 0 "(0, 0, 0)"
      1 0 0 1 "''stone''" 2 2 stack_garbage "''box1''"] null ne
  show ?thesis by blast
qed

end
